theory Spec2Isabelle
  imports Main
begin

section \<open>Python strings, values and exceptions\<close>

text \<open>
  A Python \<open>str\<close> is a sequence of Unicode code points, so it is modelled as a list of
  natural numbers; \<open>len\<close> is \<open>length\<close> and \<open>ord\<close> is the element itself.  A \<open>bytes\<close> object
  is a list of 8-bit characters.  \<open>py ''abc''\<close> is the Python literal \<open>'abc'\<close>.
\<close>

type_synonym pystr = "nat list"

type_synonym bytes = "char list"

definition py :: "string \<Rightarrow> pystr" where
  "py s = map of_char s"

text \<open>The exceptions that the webhook handler can meet.  \<open>ClientError\<close> stands for whatever
  the HTTP client raises when the request to Telegram fails in transport.\<close>

datatype py_exn =
  JSONDecodeError | ValueError | RecursionError | AttributeError | TypeError | KeyError | ClientError

text \<open>
  The objects that \<open>json.loads\<close> builds, which are the values the variables \<open>data\<close>,
  \<open>message\<close> and \<open>parsed_json\<close> of the handler can hold.  A \<open>dict\<close> is the list of its
  items in insertion order, with distinct keys.  The handler never computes with a \<open>float\<close>:
  it only tests it for zero and prints it.  A \<open>float\<close> is therefore represented by the
  literal it was read from (\<open>PyFloat lit\<close> is \<open>float(lit)\<close>), and printing is left to the
  environment below.
\<close>

datatype pyval =
    PyNone
  | PyBool bool
  | PyInt int
  | PyFloat pystr
  | PyStr pystr
  | PyList "pyval list"
  | PyDict "(pystr \<times> pyval) list"

text \<open>
  What the interpreter and its version decide, taken as parameters of the model:
  \<^item> \<open>float_repr lit\<close> is \<open>repr(float(lit))\<close> (binary floating point is not modelled);
  \<^item> \<open>isprintable c\<close> is \<open>chr(c).isprintable()\<close> for a code point above 127 (a table of
    the Unicode database);
  \<^item> \<open>int_max_str_digits\<close> is \<open>sys.get_int_max_str_digits()\<close>: \<open>int\<close> refuses a longer
    digit string with \<open>ValueError\<close>; 4300 by default since Python 3.11, 0 for no limit;
  \<^item> \<open>slice_hashable\<close>: whether a slice object is hashable (Python 3.12 and later), which
    decides what \<open>d[:100]\<close> raises on a \<open>dict\<close>;
  \<^item> the recursion limit, where the library recurses on the data of the request.
    \<open>json.loads\<close> enters one level of recursion for every array and object it opens and
    raises \<open>RecursionError\<close> at the bracket that exceeds the limit:
    \<open>loads_spare_depth\<close> is the number of levels it may nest beyond two.  How
    \<open>json.dumps\<close> and \<open>str\<close> account for their recursion differs between versions, so
    whether they raise \<open>RecursionError\<close> on a value nested deeper than two levels is
    left to the predicates \<open>dumps_overflows\<close> and \<open>repr_overflows\<close>.
  Two levels of nesting are always available: the handler logs through \<open>logging\<close> before
  each of these calls, and a logging call nests more calls than that.
  Every theorem below holds for every environment.  Memory is unbounded.
\<close>

record py_env =
  float_repr :: "pystr \<Rightarrow> pystr"
  isprintable :: "nat \<Rightarrow> bool"
  int_max_str_digits :: nat
  slice_hashable :: bool
  loads_spare_depth :: nat
  dumps_overflows :: "pyval \<Rightarrow> bool"
  repr_overflows :: "pyval \<Rightarrow> bool"

text \<open>How deep the arrays and objects of a value are nested; a value that is nested at
  most two levels deep is within the recursion limit of every environment.\<close>

fun nesting :: "pyval \<Rightarrow> nat"
  and nesting_list :: "pyval list \<Rightarrow> nat"
  and nesting_dict :: "(pystr \<times> pyval) list \<Rightarrow> nat"
where
  "nesting (PyList vs) = Suc (nesting_list vs)"
| "nesting (PyDict kvs) = Suc (nesting_dict kvs)"
| "nesting PyNone = 0"
| "nesting (PyBool b) = 0"
| "nesting (PyInt i) = 0"
| "nesting (PyFloat lit) = 0"
| "nesting (PyStr s) = 0"
| "nesting_list [] = 0"
| "nesting_list (v # vs) = max (nesting v) (nesting_list vs)"
| "nesting_dict [] = 0"
| "nesting_dict ((k, v) # kvs) = max (nesting v) (nesting_dict kvs)"

definition shallow :: "pyval \<Rightarrow> bool" where
  "shallow v = (nesting v \<le> 2)"

section \<open>The standard library functions the handler calls\<close>

subsection \<open>\<open>bytes.decode('utf-8', errors='replace')\<close>\<close>

text \<open>
  The decoder of CPython reads one UTF-8 sequence at a time.  \<open>utf8_step b0 r\<close> is what it
  does on the first byte \<open>b0\<close> followed by the bytes \<open>r\<close>: the code point it yields and how
  many bytes of \<open>r\<close> it takes.  A byte that cannot start a sequence, and a start byte whose
  continuation is wrong, yield U+FFFD (65533) for the bytes before the wrong one; a
  sequence cut off by the end of the input yields one U+FFFD for what is left.  Overlong
  forms, surrogates and code points above U+10FFFF are refused at their second byte.
\<close>

definition is_continuation :: "nat \<Rightarrow> bool" where
  "is_continuation b = (128 \<le> b \<and> b < 192)"

definition utf8_step :: "nat \<Rightarrow> nat list \<Rightarrow> nat \<times> nat" where
  "utf8_step b0 r =
     (if b0 < 128 then (b0, 0)
      else if b0 < 194 then (65533, 0)
      else if b0 < 224 then
        (case r of
           [] \<Rightarrow> (65533, 0)
         | b1 # r1 \<Rightarrow>
             if is_continuation b1 then ((b0 mod 32) * 64 + b1 mod 64, 1) else (65533, 0))
      else if b0 < 240 then
        (case r of
           [] \<Rightarrow> (65533, 0)
         | b1 # r1 \<Rightarrow>
             if \<not> is_continuation b1 \<or> (b0 = 224 \<and> b1 < 160) \<or> (b0 = 237 \<and> 160 \<le> b1)
             then (65533, 0)
             else
               (case r1 of
                  [] \<Rightarrow> (65533, 1)
                | b2 # r2 \<Rightarrow>
                    if is_continuation b2
                    then ((b0 mod 16) * 4096 + (b1 mod 64) * 64 + b2 mod 64, 2)
                    else (65533, 1)))
      else if b0 < 245 then
        (case r of
           [] \<Rightarrow> (65533, 0)
         | b1 # r1 \<Rightarrow>
             if \<not> is_continuation b1 \<or> (b0 = 240 \<and> b1 < 144) \<or> (b0 = 244 \<and> 144 \<le> b1)
             then (65533, 0)
             else
               (case r1 of
                  [] \<Rightarrow> (65533, 1)
                | b2 # r2 \<Rightarrow>
                    if \<not> is_continuation b2 then (65533, 1)
                    else
                      (case r2 of
                         [] \<Rightarrow> (65533, 2)
                       | b3 # r3 \<Rightarrow>
                           if is_continuation b3
                           then ((b0 mod 8) * 262144 + (b1 mod 64) * 4096 +
                                 (b2 mod 64) * 64 + b3 mod 64, 3)
                           else (65533, 2))))
      else (65533, 0))"

fun utf8_replace :: "nat list \<Rightarrow> pystr" where
  "utf8_replace [] = []"
| "utf8_replace (b0 # r) =
     (case utf8_step b0 r of (cp, k) \<Rightarrow> cp # utf8_replace (drop k r))"

definition decode_utf8_replace :: "bytes \<Rightarrow> pystr" where
  "decode_utf8_replace raw = utf8_replace (map of_char raw)"



subsection \<open>\<open>json.loads\<close>\<close>

text \<open>
  The scanner of the \<open>json\<close> module on a \<open>str\<close>, with the default hooks and
  \<open>strict=True\<close>.  Each function takes the text that is left and returns, with its result,
  the text after what it read.  Every syntax error is \<open>JSONDecodeError\<close>; an integer
  literal that \<open>int\<close> refuses is \<open>ValueError\<close>; an array or object opened beyond the
  recursion limit is \<open>RecursionError\<close>.  The scanner reads from left to right and stops
  at the first of them.
\<close>

definition is_ws :: "nat \<Rightarrow> bool" where
  "is_ws c = (c = 32 \<or> c = 9 \<or> c = 10 \<or> c = 13)"

definition skip_ws :: "pystr \<Rightarrow> pystr" where
  "skip_ws cs = dropWhile is_ws cs"

definition is_digit :: "nat \<Rightarrow> bool" where
  "is_digit c = (48 \<le> c \<and> c \<le> 57)"

definition hexval :: "nat \<Rightarrow> nat option" where
  "hexval c =
     (if 48 \<le> c \<and> c \<le> 57 then Some (c - 48)
      else if 97 \<le> c \<and> c \<le> 102 then Some (c - 87)
      else if 65 \<le> c \<and> c \<le> 70 then Some (c - 55)
      else None)"

fun hex4 :: "pystr \<Rightarrow> nat option" where
  "hex4 (a # b # c # d # r) =
     (case (hexval a, hexval b, hexval c, hexval d) of
        (Some w, Some x, Some y, Some z) \<Rightarrow> Some (((w * 16 + x) * 16 + y) * 16 + z)
      | _ \<Rightarrow> None)"
| "hex4 _ = None"

text \<open>\<open>scanstring\<close>: the text after an opening quote, up to the closing quote.  A control
  character below U+0020 is refused; the escape \<open>u\<close> takes four hexadecimal digits, and a high
  surrogate followed by an escaped low surrogate is joined with it into one code point.\<close>

definition simple_escape :: "nat \<Rightarrow> nat option" where
  "simple_escape e =
     (if e = 34 \<or> e = 92 \<or> e = 47 then Some e
      else if e = 98 then Some 8
      else if e = 102 then Some 12
      else if e = 110 then Some 10
      else if e = 114 then Some 13
      else if e = 116 then Some 9
      else None)"

text \<open>The escape after a backslash: the character it stands for and the number of
  characters of the input it takes.\<close>

definition unescape :: "pystr \<Rightarrow> (nat \<times> nat) option" where
  "unescape cs =
     (case cs of
        [] \<Rightarrow> None
      | e # r \<Rightarrow>
          if e = 117 then
            (case hex4 r of
               None \<Rightarrow> None
             | Some h \<Rightarrow>
                 if 55296 \<le> h \<and> h \<le> 56319 \<and> take 2 (drop 4 r) = [92, 117] then
                   (case hex4 (drop 6 r) of
                      None \<Rightarrow> None
                    | Some l \<Rightarrow>
                        if 56320 \<le> l \<and> l \<le> 57343
                        then Some (65536 + (h - 55296) * 1024 + (l - 56320), 11)
                        else Some (h, 5))
                 else Some (h, 5))
          else (case simple_escape e of None \<Rightarrow> None | Some x \<Rightarrow> Some (x, 1)))"

definition prepend :: "nat \<Rightarrow> py_exn + pystr \<times> pystr \<Rightarrow> py_exn + pystr \<times> pystr" where
  "prepend c res = (case res of Inl e \<Rightarrow> Inl e | Inr (s, rest) \<Rightarrow> Inr (c # s, rest))"

fun scanstring :: "pystr \<Rightarrow> py_exn + pystr \<times> pystr" where
  "scanstring [] = Inl JSONDecodeError"
| "scanstring (c # cs) =
     (if c = 34 then Inr ([], cs)
      else if c = 92 then
        (case unescape cs of
           None \<Rightarrow> Inl JSONDecodeError
         | Some (x, k) \<Rightarrow> prepend x (scanstring (drop k cs)))
      else if c \<le> 31 then Inl JSONDecodeError
      else prepend c (scanstring cs))"

text \<open>A number: an optional minus sign, \<open>0\<close> or a digit string that does not start with
  \<open>0\<close>, an optional fraction, an optional exponent.  With a fraction or an exponent it is
  a \<open>float\<close>, otherwise an \<open>int\<close>, which \<open>int\<close> converts unless the digit string is longer
  than \<open>int_max_str_digits\<close>.\<close>

definition digits_value :: "pystr \<Rightarrow> nat" where
  "digits_value ds = foldl (\<lambda>n d. 10 * n + (d - 48)) 0 ds"

definition scan_int_part :: "pystr \<Rightarrow> (pystr \<times> pystr) option" where
  "scan_int_part cs =
     (case cs of
        [] \<Rightarrow> None
      | d # r \<Rightarrow>
          if 49 \<le> d \<and> d \<le> 57 then Some (d # takeWhile is_digit r, dropWhile is_digit r)
          else if d = 48 then Some ([48], r)
          else None)"

definition scan_frac :: "pystr \<Rightarrow> pystr \<times> pystr" where
  "scan_frac cs =
     (case cs of
        p # d # r \<Rightarrow>
          if p = 46 \<and> is_digit d
          then (p # d # takeWhile is_digit r, dropWhile is_digit r)
          else ([], cs)
      | _ \<Rightarrow> ([], cs))"

definition scan_exp :: "pystr \<Rightarrow> pystr \<times> pystr" where
  "scan_exp cs =
     (case cs of
        [] \<Rightarrow> ([], cs)
      | e # r \<Rightarrow>
          if e = 101 \<or> e = 69 then
            (let sign = (case r of [] \<Rightarrow> [] | s # _ \<Rightarrow> if s = 43 \<or> s = 45 then [s] else []);
                 r' = drop (length sign) r
             in if takeWhile is_digit r' = [] then ([], cs)
                else (e # sign @ takeWhile is_digit r', dropWhile is_digit r'))
          else ([], cs))"

definition match_number :: "py_env \<Rightarrow> pystr \<Rightarrow> py_exn + pyval \<times> pystr" where
  "match_number E cs =
     (let sign = (case cs of [] \<Rightarrow> [] | s # _ \<Rightarrow> if s = 45 then [s] else [])
      in case scan_int_part (drop (length sign) cs) of
           None \<Rightarrow> Inl JSONDecodeError
         | Some (ip, r1) \<Rightarrow>
             (case scan_frac r1 of (frac, r2) \<Rightarrow>
              case scan_exp r2 of (ex, r3) \<Rightarrow>
                if frac \<noteq> [] \<or> ex \<noteq> [] then Inr (PyFloat (sign @ ip @ frac @ ex), r3)
                else if int_max_str_digits E \<noteq> 0 \<and> int_max_str_digits E < length ip
                  then Inl ValueError
                else Inr (PyInt (if sign = [] then int (digits_value ip)
                                 else - int (digits_value ip)), r3)))"

text \<open>\<open>d[k] = v\<close>: a key that is already in the dictionary keeps its place and takes the
  new value.\<close>

fun dict_setitem :: "(pystr \<times> pyval) list \<Rightarrow> pystr \<Rightarrow> pyval \<Rightarrow> (pystr \<times> pyval) list" where
  "dict_setitem [] k v = [(k, v)]"
| "dict_setitem ((k', v') # kvs) k v =
     (if k' = k then (k, v) # kvs else (k', v') # dict_setitem kvs k v)"

definition starts_with :: "pystr \<Rightarrow> pystr \<Rightarrow> bool" where
  "starts_with cs lit = (take (length lit) cs = lit)"

text \<open>The scanner proper.  The argument \<open>n\<close> is the number of levels of arrays and objects
  that may still be opened.  \<open>parse_array\<close> and \<open>parse_object\<close> read the items after the
  opening bracket and the white space that follows it; their last argument is what has
  been read so far.  The test \<open>length rest' < length cs\<close> before they go round their loop
  makes the termination of the definition evident; lemma \<open>parser_consumes\<close> shows that it
  always holds there, and \<open>parse_array_unfold\<close> and \<open>parse_object_unfold\<close> give the equations
  without it.\<close>

lemma length_skip_ws: "length (skip_ws cs) \<le> length cs"
  by (simp add: skip_ws_def length_dropWhile_le)

lemma prepend_Inr:
  "prepend c res = Inr (s, rest) \<Longrightarrow> \<exists>s'. res = Inr (s', rest)"
  by (auto simp: prepend_def split: sum.splits)

lemma scanstring_consumes:
  "scanstring cs = Inr (s, rest) \<Longrightarrow> length rest < length cs"
proof (induction cs arbitrary: s rest rule: scanstring.induct)
  case 1
  then show ?case by simp
next
  case (2 c cs)
  show ?case
  proof (cases "c = 34")
    case True
    with "2.prems" show ?thesis by simp
  next
    case n34: False
    show ?thesis
    proof (cases "c = 92")
      case True
      with n34 "2.prems" obtain x k where u: "unescape cs = Some (x, k)"
        and p: "prepend x (scanstring (drop k cs)) = Inr (s, rest)"
        by (auto split: option.splits)
      from prepend_Inr [OF p] obtain s' where "scanstring (drop k cs) = Inr (s', rest)"
        by blast
      from "2.IH"(1) [OF n34 True u refl this] have "length rest < length (drop k cs)" .
      then show ?thesis by simp
    next
      case False
      with n34 "2.prems" have c: "\<not> c \<le> 31"
        and p: "prepend c (scanstring cs) = Inr (s, rest)"
        by (auto split: if_splits)
      from prepend_Inr [OF p] obtain s' where "scanstring cs = Inr (s', rest)"
        by blast
      from "2.IH"(2) [OF n34 False c this] show ?thesis by simp
    qed
  qed
qed

function scan_once :: "py_env \<Rightarrow> nat \<Rightarrow> pystr \<Rightarrow> py_exn + pyval \<times> pystr"
  and parse_array :: "py_env \<Rightarrow> nat \<Rightarrow> pystr \<Rightarrow> pyval list \<Rightarrow> py_exn + pyval \<times> pystr"
  and parse_object ::
    "py_env \<Rightarrow> nat \<Rightarrow> pystr \<Rightarrow> (pystr \<times> pyval) list \<Rightarrow> py_exn + pyval \<times> pystr"
where
  "scan_once E n [] = Inl JSONDecodeError"
| "scan_once E n (c # cs) =
     (if c = 34 then
        (case scanstring cs of Inl e \<Rightarrow> Inl e | Inr (s, rest) \<Rightarrow> Inr (PyStr s, rest))
      else if c = 123 then
        (if n = 0 then Inl RecursionError
         else if starts_with (skip_ws cs) [125] then Inr (PyDict [], drop 1 (skip_ws cs))
         else parse_object E (n - 1) (skip_ws cs) [])
      else if c = 91 then
        (if n = 0 then Inl RecursionError
         else if starts_with (skip_ws cs) [93] then Inr (PyList [], drop 1 (skip_ws cs))
         else parse_array E (n - 1) (skip_ws cs) [])
      else if starts_with (c # cs) (py ''null'') then Inr (PyNone, drop 3 cs)
      else if starts_with (c # cs) (py ''true'') then Inr (PyBool True, drop 3 cs)
      else if starts_with (c # cs) (py ''false'') then Inr (PyBool False, drop 4 cs)
      else if starts_with (c # cs) (py ''NaN'') then Inr (PyFloat (py ''NaN''), drop 2 cs)
      else if starts_with (c # cs) (py ''Infinity'')
        then Inr (PyFloat (py ''Infinity''), drop 7 cs)
      else if starts_with (c # cs) (py ''-Infinity'')
        then Inr (PyFloat (py ''-Infinity''), drop 8 cs)
      else match_number E (c # cs))"
| "parse_array E n cs acc =
     (case scan_once E n cs of
        Inl e \<Rightarrow> Inl e
      | Inr (v, rest) \<Rightarrow>
          (case skip_ws rest of
             [] \<Rightarrow> Inl JSONDecodeError
           | d # rest' \<Rightarrow>
               if d = 93 then Inr (PyList (acc @ [v]), rest')
               else if d = 44 \<and> length rest' < length cs
                 then parse_array E n (skip_ws rest') (acc @ [v])
               else Inl JSONDecodeError))"
| "parse_object E n cs acc =
     (case cs of
        [] \<Rightarrow> Inl JSONDecodeError
      | q # cs' \<Rightarrow>
          if q \<noteq> 34 then Inl JSONDecodeError
          else
            (case scanstring cs' of
               Inl e \<Rightarrow> Inl e
             | Inr (k, r1) \<Rightarrow>
                 if \<not> starts_with (skip_ws r1) [58] then Inl JSONDecodeError
                 else
                   (case scan_once E n (skip_ws (drop 1 (skip_ws r1))) of
                      Inl e \<Rightarrow> Inl e
                    | Inr (v, rest) \<Rightarrow>
                        (case skip_ws rest of
                           [] \<Rightarrow> Inl JSONDecodeError
                         | d # rest' \<Rightarrow>
                             if d = 125 then Inr (PyDict (dict_setitem acc k v), rest')
                             else if d = 44 \<and> length rest' < length cs
                               then parse_object E n (skip_ws rest') (dict_setitem acc k v)
                             else Inl JSONDecodeError))))"
  by pat_completeness auto
termination
proof (relation "measure (\<lambda>x. case x of
          Inl (E, n, cs) \<Rightarrow> 2 * length cs
        | Inr (Inl (E, n, cs, acc)) \<Rightarrow> 2 * length cs + 1
        | Inr (Inr (E, n, cs, acc)) \<Rightarrow> 2 * length cs + 1)", goal_cases)
  case 1
  then show ?case by simp
next
  case (2 E n c cs)
  then show ?case using length_skip_ws [of cs] by simp
next
  case (3 E n c cs)
  then show ?case using length_skip_ws [of cs] by simp
next
  case (4 E n cs acc)
  then show ?case by simp
next
  case (5 E n cs acc x2 v rest d rest')
  then show ?case using length_skip_ws [of rest'] by simp
next
  case (6 E n cs acc q cs' x2 k r1)
  from 6 have "scanstring cs' = Inr (k, r1)" by simp
  then have "length r1 < length cs'" by (rule scanstring_consumes)
  moreover have "length (skip_ws (drop 1 (skip_ws r1))) \<le> length r1"
    using length_skip_ws [of "drop 1 (skip_ws r1)"] length_skip_ws [of r1] by simp
  ultimately show ?case using 6(1) by simp
next
  case (7 E n cs acc q cs' x2 k r1 x2a v rest d rest')
  then show ?case using length_skip_ws [of rest'] by simp
qed

text \<open>\<open>json.loads\<close> on a \<open>str\<close>: a byte order mark is refused, white space is skipped
  before and after the value, and nothing else may follow it.\<close>

definition json_loads :: "py_env \<Rightarrow> pystr \<Rightarrow> py_exn + pyval" where
  "json_loads E s =
     (if starts_with s [65279] then Inl JSONDecodeError
      else
        (case scan_once E (Suc (Suc (loads_spare_depth E))) (skip_ws s) of
           Inl e \<Rightarrow> Inl e
         | Inr (v, rest) \<Rightarrow> if skip_ws rest = [] then Inr v else Inl JSONDecodeError))"

subsection \<open>The parser consumes its input\<close>

lemma length_dropWhile_digit: "length (dropWhile is_digit r) \<le> length r"
  by (rule length_dropWhile_le)

lemma scan_int_part_consumes:
  "scan_int_part cs = Some (ip, r) \<Longrightarrow> length r < length cs"
  using length_dropWhile_digit [of "tl cs"]
  by (auto simp: scan_int_part_def split: list.splits if_splits)

lemma scan_frac_consumes: "scan_frac cs = (f, r) \<Longrightarrow> length r \<le> length cs"
proof (cases cs)
  case Nil
  assume "scan_frac cs = (f, r)"
  with Nil show ?thesis by (simp add: scan_frac_def)
next
  case (Cons p cs')
  assume a: "scan_frac cs = (f, r)"
  show ?thesis
  proof (cases cs')
    case Nil
    with Cons a show ?thesis by (simp add: scan_frac_def)
  next
    case (Cons d r')
    with \<open>cs = p # cs'\<close> a length_dropWhile_digit [of r'] show ?thesis
      by (auto simp: scan_frac_def split: if_splits)
  qed
qed

lemma scan_exp_consumes: "scan_exp cs = (x, r) \<Longrightarrow> length r \<le> length cs"
proof (cases cs)
  case Nil
  assume "scan_exp cs = (x, r)"
  with Nil show ?thesis by (simp add: scan_exp_def)
next
  case (Cons e r0)
  assume a: "scan_exp cs = (x, r)"
  define sign where "sign = (case r0 of [] \<Rightarrow> [] | s # _ \<Rightarrow> if s = 43 \<or> s = 45 then [s] else [])"
  have "length (dropWhile is_digit (drop (length sign) r0)) \<le> length r0"
    using length_dropWhile_digit [of "drop (length sign) r0"] by simp
  with a Cons show ?thesis
    by (auto simp: scan_exp_def Let_def sign_def split: if_splits)
qed

lemma match_number_consumes:
  assumes "match_number E cs = Inr (v, rest)"
  shows "length rest < length cs"
proof -
  define sign where "sign = (case cs of [] \<Rightarrow> [] | s # _ \<Rightarrow> if s = 45 then [s] else [])"
  from assms obtain ip r1 where ip: "scan_int_part (drop (length sign) cs) = Some (ip, r1)"
    by (auto simp: match_number_def Let_def sign_def split: option.splits)
  obtain frac r2 where fr: "scan_frac r1 = (frac, r2)" by (cases "scan_frac r1")
  obtain ex r3 where ex: "scan_exp r2 = (ex, r3)" by (cases "scan_exp r2")
  from assms ip fr ex have "rest = r3"
    by (auto simp: match_number_def Let_def sign_def split: if_splits)
  moreover from scan_int_part_consumes [OF ip] have "length r1 < length cs" by simp
  moreover note scan_frac_consumes [OF fr] scan_exp_consumes [OF ex]
  ultimately show ?thesis by simp
qed

lemma starts_with_drop: "starts_with cs [d] \<Longrightarrow> length (drop 1 cs) < length cs"
  by (cases cs) (simp_all add: starts_with_def)

lemma parser_consumes:
  "scan_once E n cs = Inr (v, rest) \<Longrightarrow> length rest < length cs"
  "parse_array E n cs vs = Inr (v, rest) \<Longrightarrow> length rest < length cs"
  "parse_object E n cs kvs = Inr (v, rest) \<Longrightarrow> length rest < length cs"
proof (induction E n cs and E n cs vs and E n cs kvs arbitrary: v rest and v rest and v rest
    rule: scan_once_parse_array_parse_object.induct)
  case (1 E n)
  then show ?case by simp
next
  case (2 E n c cs)
  note ws = length_skip_ws [of cs]
  consider (str) "c = 34" | (obj) "c \<noteq> 34" "c = 123" | (arr) "c \<noteq> 34" "c \<noteq> 123" "c = 91"
    | (other) "c \<noteq> 34" "c \<noteq> 123" "c \<noteq> 91" by blast
  then show ?case
  proof cases
    case str
    with "2.prems" obtain s where "scanstring cs = Inr (s, rest)"
      by (auto split: sum.splits)
    from scanstring_consumes [OF this] show ?thesis by simp
  next
    case obj
    with "2.prems" have n: "n \<noteq> 0" by (auto split: if_splits)
    show ?thesis
    proof (cases "starts_with (skip_ws cs) [125]")
      case True
      with obj n "2.prems" have "rest = drop 1 (skip_ws cs)" by simp
      with starts_with_drop [OF True] ws show ?thesis by simp
    next
      case False
      with obj n "2.prems" have "parse_object E (n - 1) (skip_ws cs) [] = Inr (v, rest)"
        by simp
      from "2.IH"(1) [OF obj n False this] ws show ?thesis by simp
    qed
  next
    case arr
    with "2.prems" have n: "n \<noteq> 0" by (auto split: if_splits)
    show ?thesis
    proof (cases "starts_with (skip_ws cs) [93]")
      case True
      with arr n "2.prems" have "rest = drop 1 (skip_ws cs)" by simp
      with starts_with_drop [OF True] ws show ?thesis by simp
    next
      case False
      with arr n "2.prems" have "parse_array E (n - 1) (skip_ws cs) [] = Inr (v, rest)"
        by simp
      from "2.IH"(2) [OF arr n False this] ws show ?thesis by simp
    qed
  next
    case other
    from "2.prems" other
    have "(\<exists>k. rest = drop k cs) \<or> match_number E (c # cs) = Inr (v, rest)"
      by (auto split: if_splits)
    then show ?thesis
    proof
      assume "\<exists>k. rest = drop k cs"
      then show ?thesis by auto
    next
      assume "match_number E (c # cs) = Inr (v, rest)"
      then show ?thesis by (rule match_number_consumes)
    qed
  qed
next
  case (3 E n cs acc)
  from "3.prems" obtain w r where so: "scan_once E n cs = Inr (w, r)"
    by (auto split: sum.splits)
  from "3.IH"(1) [OF so] have r: "length r < length cs" .
  from "3.prems" so obtain d r' where sk: "skip_ws r = d # r'"
    by (auto split: list.splits)
  from length_skip_ws [of r] sk have r': "length r' < length r" by simp
  show ?case
  proof (cases "d = 93")
    case True
    with "3.prems" so sk have "rest = r'" by simp
    with r r' show ?thesis by simp
  next
    case False
    with "3.prems" so sk
    have g: "d = 44 \<and> length r' < length cs"
      and rec: "parse_array E n (skip_ws r') (acc @ [w]) = Inr (v, rest)"
      by (auto split: if_splits)
    from "3.IH"(2) so sk False g rec
    have "length rest < length (skip_ws r')" by fastforce
    with length_skip_ws [of r'] r r' show ?thesis by simp
  qed
next
  case (4 E n cs acc)
  from "4.prems" obtain q cs' where cs: "cs = q # cs'"
    by (cases cs) auto
  from "4.prems" cs have q: "\<not> q \<noteq> 34"
    by (auto split: if_splits)
  from "4.prems" cs q obtain k r1 where ss: "scanstring cs' = Inr (k, r1)"
    by (auto split: sum.splits)
  from "4.prems" cs q ss have colon: "\<not> \<not> starts_with (skip_ws r1) [58]"
    by (auto split: if_splits)
  from "4.prems" cs q ss colon obtain w r
    where so: "scan_once E n (skip_ws (drop 1 (skip_ws r1))) = Inr (w, r)"
    by (auto split: sum.splits)
  from "4.IH"(1) cs q ss colon so
  have "length r < length (skip_ws (drop 1 (skip_ws r1)))" by fastforce
  moreover have "length (skip_ws (drop 1 (skip_ws r1))) \<le> length r1"
    using length_skip_ws [of "drop 1 (skip_ws r1)"] length_skip_ws [of r1] by simp
  moreover from scanstring_consumes [OF ss] have "length r1 < length cs'" .
  ultimately have r: "length r < length cs" using cs by simp
  from "4.prems" cs q ss colon so obtain d r' where sk: "skip_ws r = d # r'"
    by (auto split: list.splits)
  from length_skip_ws [of r] sk have r': "length r' < length r" by simp
  show ?case
  proof (cases "d = 125")
    case True
    with "4.prems" cs q ss colon so sk have "rest = r'" by simp
    with r r' show ?thesis by simp
  next
    case False
    with "4.prems" cs q ss colon so sk
    have g: "d = 44 \<and> length r' < length cs"
      and rec: "parse_object E n (skip_ws r') (dict_setitem acc k w) = Inr (v, rest)"
      by (auto split: if_splits)
    from "4.IH"(2) cs q ss colon so sk False g rec
    have "length rest < length (skip_ws r')" by fastforce
    with length_skip_ws [of r'] r r' show ?thesis by simp
  qed
qed

lemma parse_array_unfold:
  "parse_array E n cs acc =
     (case scan_once E n cs of
        Inl e \<Rightarrow> Inl e
      | Inr (v, rest) \<Rightarrow>
          (case skip_ws rest of
             [] \<Rightarrow> Inl JSONDecodeError
           | d # rest' \<Rightarrow>
               if d = 93 then Inr (PyList (acc @ [v]), rest')
               else if d = 44 then parse_array E n (skip_ws rest') (acc @ [v])
               else Inl JSONDecodeError))"
proof (cases "scan_once E n cs")
  case (Inl e)
  then show ?thesis by simp
next
  case (Inr p)
  obtain v rest where p: "p = (v, rest)" by (cases p)
  show ?thesis
  proof (cases "skip_ws rest")
    case Nil
    with Inr p show ?thesis by simp
  next
    case (Cons d rest')
    from parser_consumes(1) [OF Inr [unfolded p]] length_skip_ws [of rest] Cons
    have "length rest' < length cs" by simp
    with Inr p Cons show ?thesis by simp
  qed
qed

lemma parse_object_unfold:
  "parse_object E n (34 # cs') acc =
     (case scanstring cs' of
        Inl e \<Rightarrow> Inl e
      | Inr (k, r1) \<Rightarrow>
          if \<not> starts_with (skip_ws r1) [58] then Inl JSONDecodeError
          else
            (case scan_once E n (skip_ws (drop 1 (skip_ws r1))) of
               Inl e \<Rightarrow> Inl e
             | Inr (v, rest) \<Rightarrow>
                 (case skip_ws rest of
                    [] \<Rightarrow> Inl JSONDecodeError
                  | d # rest' \<Rightarrow>
                      if d = 125 then Inr (PyDict (dict_setitem acc k v), rest')
                      else if d = 44
                        then parse_object E n (skip_ws rest') (dict_setitem acc k v)
                      else Inl JSONDecodeError)))"
proof (cases "scanstring cs'")
  case (Inl e)
  then show ?thesis by simp
next
  case (Inr p)
  obtain k r1 where p: "p = (k, r1)" by (cases p)
  note ss = Inr [unfolded p]
  show ?thesis
  proof (cases "scan_once E n (skip_ws (drop 1 (skip_ws r1)))")
    case (Inl e)
    with ss show ?thesis by simp
  next
    case (Inr p')
    obtain v rest where p': "p' = (v, rest)" by (cases p')
    note so = Inr [unfolded p']
    show ?thesis
    proof (cases "skip_ws rest")
      case Nil
      with ss so show ?thesis by simp
    next
      case (Cons d rest')
      have "length (skip_ws (drop 1 (skip_ws r1))) \<le> length r1"
        using length_skip_ws [of "drop 1 (skip_ws r1)"] length_skip_ws [of r1] by simp
      with parser_consumes(1) [OF so] scanstring_consumes [OF ss]
        length_skip_ws [of rest] Cons
      have "length rest' < length (34 # cs')" by simp
      with ss so Cons show ?thesis by simp
    qed
  qed
qed

subsection \<open>\<open>json.dumps(value, indent=2)\<close>\<close>

text \<open>
  The encoder with its defaults and \<open>indent=2\<close>: \<open>ensure_ascii\<close> escapes every character
  outside the printable ASCII range, the item separator is a comma followed by a new line
  and the indentation of the level, the key separator is a colon and a space.
  \<open>iterencode\<close> is the text; \<open>json_dumps\<close> returns it unless the encoder exceeds the
  recursion limit.
\<close>

definition hex_digit :: "nat \<Rightarrow> nat" where
  "hex_digit d = (if d < 10 then 48 + d else 87 + d)"

definition hex2 :: "nat \<Rightarrow> pystr" where
  "hex2 n = [hex_digit (n div 16 mod 16), hex_digit (n mod 16)]"

definition hex4_lower :: "nat \<Rightarrow> pystr" where
  "hex4_lower n = hex2 (n div 256) @ hex2 n"

definition hex8_lower :: "nat \<Rightarrow> pystr" where
  "hex8_lower n = hex4_lower (n div 65536) @ hex4_lower n"

definition escape_ascii :: "nat \<Rightarrow> pystr" where
  "escape_ascii c =
     (if c = 34 then [92, 34]
      else if c = 92 then [92, 92]
      else if c = 10 then [92, 110]
      else if c = 13 then [92, 114]
      else if c = 9 then [92, 116]
      else if c = 8 then [92, 98]
      else if c = 12 then [92, 102]
      else if 32 \<le> c \<and> c \<le> 126 then [c]
      else if c < 65536 then [92, 117] @ hex4_lower c
      else [92, 117] @ hex4_lower (55296 + (c - 65536) div 1024) @
           [92, 117] @ hex4_lower (56320 + (c - 65536) mod 1024))"

definition encode_basestring_ascii :: "pystr \<Rightarrow> pystr" where
  "encode_basestring_ascii s = [34] @ concat (map escape_ascii s) @ [34]"

fun decimal :: "nat \<Rightarrow> pystr" where
  "decimal n = (if n < 10 then [48 + n] else decimal (n div 10) @ [48 + n mod 10])"

declare decimal.simps [simp del]

definition int_repr :: "int \<Rightarrow> pystr" where
  "int_repr i = (if i < 0 then 45 # decimal (nat (- i)) else decimal (nat i))"

definition floatstr :: "py_env \<Rightarrow> pystr \<Rightarrow> pystr" where
  "floatstr E lit =
     (if float_repr E lit = py ''nan'' then py ''NaN''
      else if float_repr E lit = py ''inf'' then py ''Infinity''
      else if float_repr E lit = py ''-inf'' then py ''-Infinity''
      else float_repr E lit)"

fun py_join :: "pystr \<Rightarrow> pystr list \<Rightarrow> pystr" where
  "py_join sep [] = []"
| "py_join sep [x] = x"
| "py_join sep (x # y # ys) = x @ sep @ py_join sep (y # ys)"

fun indent_str :: "nat \<Rightarrow> pystr" where
  "indent_str 0 = []"
| "indent_str (Suc level) = 32 # 32 # indent_str level"

definition newline_indent :: "nat \<Rightarrow> pystr" where
  "newline_indent level = 10 # indent_str level"

fun iterencode :: "py_env \<Rightarrow> nat \<Rightarrow> pyval \<Rightarrow> pystr"
  and iterencode_list :: "py_env \<Rightarrow> nat \<Rightarrow> pyval list \<Rightarrow> pystr list"
  and iterencode_dict :: "py_env \<Rightarrow> nat \<Rightarrow> (pystr \<times> pyval) list \<Rightarrow> pystr list"
where
  "iterencode E level PyNone = py ''null''"
| "iterencode E level (PyBool b) = (if b then py ''true'' else py ''false'')"
| "iterencode E level (PyInt i) = int_repr i"
| "iterencode E level (PyFloat lit) = floatstr E lit"
| "iterencode E level (PyStr s) = encode_basestring_ascii s"
| "iterencode E level (PyList vs) =
     (if vs = [] then py ''[]''
      else [91] @ newline_indent (Suc level) @
           py_join (44 # newline_indent (Suc level)) (iterencode_list E (Suc level) vs) @
           newline_indent level @ [93])"
| "iterencode E level (PyDict kvs) =
     (if kvs = [] then py ''{}''
      else [123] @ newline_indent (Suc level) @
           py_join (44 # newline_indent (Suc level)) (iterencode_dict E (Suc level) kvs) @
           newline_indent level @ [125])"
| "iterencode_list E level [] = []"
| "iterencode_list E level (v # vs) = iterencode E level v # iterencode_list E level vs"
| "iterencode_dict E level [] = []"
| "iterencode_dict E level ((k, v) # kvs) =
     (encode_basestring_ascii k @ [58, 32] @ iterencode E level v) #
     iterencode_dict E level kvs"

definition json_dumps :: "py_env \<Rightarrow> pyval \<Rightarrow> py_exn + pystr" where
  "json_dumps E v =
     (if \<not> shallow v \<and> dumps_overflows E v then Inl RecursionError
      else Inr (iterencode E 0 v))"

subsection \<open>\<open>str\<close> of a decoded value\<close>

text \<open>\<open>str(data)\<close> is called on a \<open>dict\<close>, for which it is \<open>repr\<close>: the items in braces,
  every key and value printed by \<open>repr\<close>.  \<open>py_repr\<close> is the text; \<open>py_str\<close> returns it
  unless \<open>repr\<close> exceeds the recursion limit.\<close>

definition repr_char :: "py_env \<Rightarrow> nat \<Rightarrow> nat \<Rightarrow> pystr" where
  "repr_char E quote c =
     (if c = quote \<or> c = 92 then [92, c]
      else if c = 9 then [92, 116]
      else if c = 10 then [92, 110]
      else if c = 13 then [92, 114]
      else if c < 32 \<or> c = 127 then [92, 120] @ hex2 c
      else if c < 127 then [c]
      else if isprintable E c then [c]
      else if c \<le> 255 then [92, 120] @ hex2 c
      else if c \<le> 65535 then [92, 117] @ hex4_lower c
      else [92, 85] @ hex8_lower c)"

definition str_repr :: "py_env \<Rightarrow> pystr \<Rightarrow> pystr" where
  "str_repr E s =
     (let quote = (if 39 \<in> set s \<and> 34 \<notin> set s then 34 else 39)
      in [quote] @ concat (map (repr_char E quote) s) @ [quote])"

fun py_repr :: "py_env \<Rightarrow> pyval \<Rightarrow> pystr"
  and repr_list :: "py_env \<Rightarrow> pyval list \<Rightarrow> pystr list"
  and repr_dict :: "py_env \<Rightarrow> (pystr \<times> pyval) list \<Rightarrow> pystr list"
where
  "py_repr E PyNone = py ''None''"
| "py_repr E (PyBool b) = (if b then py ''True'' else py ''False'')"
| "py_repr E (PyInt i) = int_repr i"
| "py_repr E (PyFloat lit) = float_repr E lit"
| "py_repr E (PyStr s) = str_repr E s"
| "py_repr E (PyList vs) = [91] @ py_join [44, 32] (repr_list E vs) @ [93]"
| "py_repr E (PyDict kvs) = [123] @ py_join [44, 32] (repr_dict E kvs) @ [125]"
| "repr_list E [] = []"
| "repr_list E (v # vs) = py_repr E v # repr_list E vs"
| "repr_dict E [] = []"
| "repr_dict E ((k, v) # kvs) = (str_repr E k @ [58, 32] @ py_repr E v) # repr_dict E kvs"

definition py_str :: "py_env \<Rightarrow> pyval \<Rightarrow> py_exn + pystr" where
  "py_str E v =
     (if \<not> shallow v \<and> repr_overflows E v then Inl RecursionError
      else Inr (py_repr E v))"

section \<open>TopicDatabase\<close>

text \<open>
  The table \<open>topics\<close> of \<open>init_database\<close>: four columns, \<open>topic_name TEXT PRIMARY KEY\<close>.
  The table is the list of its rows in insertion order.  The identifiers are Python
  integers that SQLite stores as they are (Telegram identifiers fit 64 bits); the value of
  \<open>CURRENT_TIMESTAMP\<close> at the insertion is the argument \<open>now\<close> of \<open>add_topic\<close>.
\<close>

record topic_row =
  topic_name :: pystr
  user_id :: int
  chat_id :: int
  created_at :: nat

type_synonym topics = "topic_row list"

datatype sqlite_error = IntegrityError

text \<open>\<open>CREATE TABLE IF NOT EXISTS\<close>: a database file without the table gets an empty one,
  an existing table is left as it is.\<close>

definition init_database :: "topics option \<Rightarrow> topics" where
  "init_database file = (case file of None \<Rightarrow> [] | Some t \<Rightarrow> t)"

text \<open>The constraint that \<open>PRIMARY KEY\<close> declares on the column \<open>topic_name\<close>.\<close>

definition primary_key :: "topics \<Rightarrow> bool" where
  "primary_key t = distinct (map topic_name t)"

text \<open>\<open>INSERT INTO topics (topic_name, user_id, chat_id) VALUES (?, ?, ?)\<close>: SQLite
  refuses a row whose key is already in the table, and \<open>sqlite3\<close> raises
  \<open>IntegrityError\<close>.\<close>

definition insert_topic :: "topics \<Rightarrow> topic_row \<Rightarrow> sqlite_error + topics" where
  "insert_topic t r =
     (if \<exists>r' \<in> set t. topic_name r' = topic_name r then Inl IntegrityError
      else Inr (t @ [r]))"

text \<open>\<open>add_topic\<close>: the insertion inside \<open>try\<close>, \<open>return True\<close> after the commit,
  \<open>return False\<close> in \<open>except sqlite3.IntegrityError\<close>.  The result is the returned
  boolean and the table afterwards.\<close>

definition add_topic :: "topics \<Rightarrow> pystr \<Rightarrow> int \<Rightarrow> int \<Rightarrow> nat \<Rightarrow> bool \<times> topics" where
  "add_topic db name uid cid now =
     (case insert_topic db
        \<lparr>topic_name = name, user_id = uid, chat_id = cid, created_at = now\<rparr> of
        Inr db' \<Rightarrow> (True, db')
      | Inl IntegrityError \<Rightarrow> (False, db))"

text \<open>\<open>get_topic\<close>: \<open>SELECT ... WHERE topic_name = ?\<close> and \<open>fetchone\<close>; \<open>None\<close> when no
  row matches.\<close>

definition get_topic :: "topics \<Rightarrow> pystr \<Rightarrow> topic_row option" where
  "get_topic db name = find (\<lambda>r. topic_name r = name) db"

text \<open>\<open>find_topic_by_name\<close>: the same with the owner in the \<open>WHERE\<close> clause.\<close>

definition find_topic_by_name :: "topics \<Rightarrow> int \<Rightarrow> pystr \<Rightarrow> topic_row option" where
  "find_topic_by_name db uid name =
     find (\<lambda>r. user_id r = uid \<and> topic_name r = name) db"

text \<open>\<open>delete_topic\<close>: \<open>DELETE FROM topics WHERE user_id = ? AND topic_name = ?\<close>, then
  \<open>return cursor.rowcount > 0\<close>, the number of rows the statement deleted.\<close>

definition delete_rowcount :: "topics \<Rightarrow> int \<Rightarrow> pystr \<Rightarrow> nat" where
  "delete_rowcount db uid name =
     length (filter (\<lambda>r. user_id r = uid \<and> topic_name r = name) db)"

definition delete_topic :: "topics \<Rightarrow> int \<Rightarrow> pystr \<Rightarrow> bool \<times> topics" where
  "delete_topic db uid name =
     (delete_rowcount db uid name > 0,
      filter (\<lambda>r. \<not> (user_id r = uid \<and> topic_name r = name)) db)"


section \<open>The webhook handler\<close>

text \<open>What the handler reads of a request: the topic name matched in the path, the content
  type and the body.  A response is a status and a text.\<close>

record request =
  match_topic_name :: pystr
  content_type :: pystr
  body :: bytes

datatype response = Response nat string

datatype post_outcome = Status nat | Raised

datatype effect = GetTopic pystr | ReadBody | SendMessage int pystr

text \<open>Line 269: every byte outside 32..126 that is not a tab, a line feed or a carriage
  return becomes a space; the others become the character of their code.\<close>

definition clean_raw_body :: "bytes \<Rightarrow> pystr" where
  "clean_raw_body raw_body =
     map (\<lambda>b. if (32 \<le> (of_char b :: nat) \<and> (of_char b :: nat) \<le> 126) \<or>
                  (of_char b :: nat) \<in> set [9, 10, 13]
               then of_char b else 32) raw_body"

text \<open>Line 273, \<open>data.get('message', str(data))\<close>.  Only a \<open>dict\<close> has the method \<open>get\<close>:
  on any other value the attribute lookup raises \<open>AttributeError\<close>, before the arguments
  are evaluated.  On a \<open>dict\<close> the default \<open>str(data)\<close> is evaluated whether the key is
  there or not, and an exception it raises leaves the call.\<close>

definition dict_get :: "(pystr \<times> pyval) list \<Rightarrow> pystr \<Rightarrow> pyval \<Rightarrow> pyval" where
  "dict_get kvs k dflt = (case map_of kvs k of Some v \<Rightarrow> v | None \<Rightarrow> dflt)"

definition get_message :: "py_env \<Rightarrow> pyval \<Rightarrow> py_exn + pyval" where
  "get_message E data =
     (case data of
        PyDict kvs \<Rightarrow>
          (case py_str E data of
             Inl e \<Rightarrow> Inl e
           | Inr text \<Rightarrow> Inr (dict_get kvs (py ''message'') (PyStr text)))
      | _ \<Rightarrow> Inl AttributeError)"

text \<open>Lines 265 to 283: the message of the request.  Under \<open>application/json\<close> the cleaned
  body is decoded; \<open>except json.JSONDecodeError\<close> falls back to the raw body decoded as
  text, and any other exception leaves the \<open>try\<close> statement.  Under any other content
  type the raw body is decoded as text.\<close>

definition extract_message :: "py_env \<Rightarrow> pystr \<Rightarrow> bytes \<Rightarrow> py_exn + pyval" where
  "extract_message E ctype raw_body =
     (if ctype = py ''application/json'' then
        (case json_loads E (clean_raw_body raw_body) of
           Inr data \<Rightarrow> get_message E data
         | Inl e \<Rightarrow>
             if e = JSONDecodeError then Inr (PyStr (decode_utf8_replace raw_body))
             else Inl e)
      else Inr (PyStr (decode_utf8_replace raw_body)))"

text \<open>Line 285, \<open>if not message\<close>: the truth value of a Python object.  A \<open>float\<close> is
  false when it is zero, which \<open>repr\<close> prints as \<open>0.0\<close> or \<open>-0.0\<close>.\<close>

fun truthy :: "py_env \<Rightarrow> pyval \<Rightarrow> bool" where
  "truthy E PyNone = False"
| "truthy E (PyBool b) = b"
| "truthy E (PyInt i) = (i \<noteq> 0)"
| "truthy E (PyFloat lit) = (float_repr E lit \<noteq> py ''0.0'' \<and> float_repr E lit \<noteq> py ''-0.0'')"
| "truthy E (PyStr s) = (s \<noteq> [])"
| "truthy E (PyList vs) = (vs \<noteq> [])"
| "truthy E (PyDict kvs) = (kvs \<noteq> [])"

text \<open>Line 290 logs \<open>len(message)\<close>, which raises \<open>TypeError\<close> on a number or a
  boolean.\<close>

fun py_len :: "pyval \<Rightarrow> py_exn + nat" where
  "py_len (PyStr s) = Inr (length s)"
| "py_len (PyList vs) = Inr (length vs)"
| "py_len (PyDict kvs) = Inr (length kvs)"
| "py_len _ = Inl TypeError"

text \<open>Line 304 logs \<open>message[:100]\<close>.  A \<open>str\<close> and a \<open>list\<close> are sliced; a \<open>dict\<close> looks
  the slice up as a key, which raises \<open>TypeError\<close> where a slice is unhashable and
  \<open>KeyError\<close> where it is hashable; a number or a boolean is not subscriptable.\<close>

fun slice_100 :: "py_env \<Rightarrow> pyval \<Rightarrow> py_exn + pyval" where
  "slice_100 E (PyStr s) = Inr (PyStr (take 100 s))"
| "slice_100 E (PyList vs) = Inr (PyList (take 100 vs))"
| "slice_100 E (PyDict kvs) = Inl (if slice_hashable E then KeyError else TypeError)"
| "slice_100 E _ = Inl TypeError"

text \<open>Line 305, \<open>json.loads(message)\<close>: \<open>TypeError\<close> unless the message is a \<open>str\<close>.\<close>

fun loads_object :: "py_env \<Rightarrow> pyval \<Rightarrow> py_exn + pyval" where
  "loads_object E (PyStr s) = json_loads E s"
| "loads_object E _ = Inl TypeError"

text \<open>Line 307: the pretty-printed value between the fences of a code block.  96 is the
  backtick.\<close>

definition literal_block :: "pystr \<Rightarrow> pystr" where
  "literal_block payload = [96, 96, 96] @ py ''json'' @ [10] @ payload @ [10, 96, 96, 96]"

text \<open>Lines 304 to 307, the body of the inner \<open>try\<close>.\<close>

definition pretty_print :: "py_env \<Rightarrow> pyval \<Rightarrow> py_exn + pystr" where
  "pretty_print E message =
     (case slice_100 E message of
        Inl e \<Rightarrow> Inl e
      | Inr _ \<Rightarrow>
          (case loads_object E message of
             Inl e \<Rightarrow> Inl e
           | Inr parsed_json \<Rightarrow>
               (case json_dumps E parsed_json of
                  Inl e \<Rightarrow> Inl e
                | Inr payload \<Rightarrow> Inr (literal_block payload))))"

text \<open>Line 313 joins the characters of the message whose \<open>ord\<close> is at least 32 or that
  are a line feed, a carriage return or a tab.  Iterating over a \<open>str\<close> gives its characters, over a \<open>list\<close> its elements, over a
  \<open>dict\<close> its keys; a number or a boolean is not iterable.  \<open>ord\<close> raises \<open>TypeError\<close> on
  anything but a string of length one.\<close>

definition keep_char :: "nat \<Rightarrow> bool" where
  "keep_char c = (32 \<le> c \<or> c \<in> set [10, 13, 9])"

fun join_kept :: "pyval list \<Rightarrow> py_exn + pystr" where
  "join_kept [] = Inr []"
| "join_kept (PyStr [c] # xs) =
     (case join_kept xs of
        Inl e \<Rightarrow> Inl e
      | Inr s \<Rightarrow> Inr (if keep_char c then c # s else s))"
| "join_kept (_ # xs) = Inl TypeError"

fun clean_message :: "pyval \<Rightarrow> py_exn + pystr" where
  "clean_message (PyStr s) = Inr (filter keep_char s)"
| "clean_message (PyList vs) = join_kept vs"
| "clean_message (PyDict kvs) = join_kept (map (\<lambda>kv. PyStr (fst kv)) kvs)"
| "clean_message _ = Inl TypeError"

text \<open>Line 314: \<open>str.replace\<close> with a pattern of one character, called five times in the
  order of the source.  92 is the backslash.\<close>

definition replace_char :: "nat \<Rightarrow> pystr \<Rightarrow> pystr \<Rightarrow> pystr" where
  "replace_char old new s = concat (map (\<lambda>c. if c = old then new else [c]) s)"

definition markdown_escape :: "pystr \<Rightarrow> pystr" where
  "markdown_escape s =
     replace_char 96 [92, 96]
       (replace_char 93 [92, 93]
         (replace_char 91 [92, 91]
           (replace_char 42 [92, 42]
             (replace_char 95 [92, 95] s))))"

text \<open>Lines 300 to 314: \<open>formatted_message\<close>.  \<open>except (json.JSONDecodeError, TypeError)\<close>
  handles these two exceptions of the inner \<open>try\<close>; any other one, and any exception that
  the handler of the \<open>except\<close> clause raises itself, leaves the statement.\<close>

definition format_message :: "py_env \<Rightarrow> pyval \<Rightarrow> py_exn + pystr" where
  "format_message E message =
     (case pretty_print E message of
        Inr formatted \<Rightarrow> Inr formatted
      | Inl e \<Rightarrow>
          if e = JSONDecodeError \<or> e = TypeError then
            (case clean_message message of
               Inl e' \<Rightarrow> Inl e'
             | Inr clean \<Rightarrow> Inr (markdown_escape clean))
          else Inl e)"

text \<open>Line 316: \<open>notification_text\<close>.  128276 is the bell character.\<close>

definition notification_text :: "pystr \<Rightarrow> pystr \<Rightarrow> pystr" where
  "notification_text name formatted =
     [128276, 32, 42, 42] @ name @ [42, 42, 10, 10] @ formatted"

text \<open>Lines 322 to 334: the request to the Bot API.  \<open>post chat_id text\<close> is the outcome of
  \<open>session.post\<close> for the payload with this \<open>chat_id\<close> and \<open>text\<close> (\<open>parse_mode\<close> is always
  \<open>'Markdown'\<close>): the status of the response, or an exception.\<close>

definition send_notification ::
  "(int \<Rightarrow> pystr \<Rightarrow> post_outcome) \<Rightarrow> int \<Rightarrow> pystr \<Rightarrow> py_exn + response" where
  "send_notification post cid text =
     (case post cid text of
        Status st \<Rightarrow>
          Inr (if st = 200 then Response 200 ''Notification sent''
               else Response 500 ''Failed to send notification'')
      | Raised \<Rightarrow> Inl ClientError)"

text \<open>Lines 258 to 334, the body of the outer \<open>try\<close>: its result is the response it
  returns or the exception that leaves it, together with the effects in the order they
  happen.  The field \<open>body\<close> of the request is the value of \<open>raw_body\<close>, what
  \<open>request.read()\<close> returned.  The logging calls in between print the body, the decoded
  value and the message; the decoded value was printed by \<open>str(data)\<close> at line 273 already
  and the message is no deeper, so they are not modelled as raising.\<close>

definition handle_body ::
  "py_env \<Rightarrow> (int \<Rightarrow> pystr \<Rightarrow> post_outcome) \<Rightarrow> pystr \<Rightarrow> topic_row \<Rightarrow> request \<Rightarrow>
     (py_exn + response) \<times> effect list" where
  "handle_body E post name topic_info req =
     (case extract_message E (content_type req) (body req) of
        Inl e \<Rightarrow> (Inl e, [ReadBody])
      | Inr message \<Rightarrow>
          if \<not> truthy E message then (Inr (Response 400 ''No message provided''), [ReadBody])
          else
            (case py_len message of
               Inl e \<Rightarrow> (Inl e, [ReadBody])
             | Inr _ \<Rightarrow>
                 (case format_message E message of
                    Inl e \<Rightarrow> (Inl e, [ReadBody])
                  | Inr formatted \<Rightarrow>
                      (send_notification post (chat_id topic_info)
                         (notification_text name formatted),
                       [ReadBody,
                        SendMessage (chat_id topic_info) (notification_text name formatted)]))))"

text \<open>\<open>webhook_handler\<close>: the topic is looked up first, and a request for an unknown topic
  is answered before the body is read; \<open>except Exception\<close> turns every exception of the
  body into the response 500.  The result is the response and the effects: the lookup in
  the database, the reading of the body, the request sent to Telegram.\<close>

definition webhook_handler ::
  "py_env \<Rightarrow> topics \<Rightarrow> (int \<Rightarrow> pystr \<Rightarrow> post_outcome) \<Rightarrow> request \<Rightarrow>
     response \<times> effect list" where
  "webhook_handler E db post req =
     (case get_topic db (match_topic_name req) of
        None \<Rightarrow> (Response 404 ''Topic not found'', [GetTopic (match_topic_name req)])
      | Some topic_info \<Rightarrow>
          (case handle_body E post (match_topic_name req) topic_info req of
             (Inr resp, effects) \<Rightarrow> (resp, GetTopic (match_topic_name req) # effects)
           | (Inl e, effects) \<Rightarrow>
               (Response 500 ''Internal server error'',
                GetTopic (match_topic_name req) # effects)))"

section \<open>The words of the specification\<close>

text \<open>An effect that calls the messaging backend.\<close>

definition is_send :: "effect \<Rightarrow> bool" where
  "is_send e = (case e of SendMessage _ _ \<Rightarrow> True | _ \<Rightarrow> False)"

text \<open>Free-text normalization as the specification words it: strip the characters with a
  code point below 32 other than tab, line feed and carriage return, then prefix each
  underscore, asterisk, square bracket and backtick with a backslash.\<close>

definition strip_controls :: "pystr \<Rightarrow> pystr" where
  "strip_controls s = filter (\<lambda>c. \<not> (c < 32 \<and> c \<noteq> 9 \<and> c \<noteq> 10 \<and> c \<noteq> 13)) s"

definition escape_markup :: "pystr \<Rightarrow> pystr" where
  "escape_markup s =
     concat (map (\<lambda>c. if c = 95 \<or> c = 42 \<or> c = 91 \<or> c = 93 \<or> c = 96 then [92, c] else [c]) s)"

text \<open>The byte that a byte of the body stands for after the cleaning of the
  \<open>application/json\<close> path.\<close>

definition space_out :: "char \<Rightarrow> char" where
  "space_out b =
     (if (32 \<le> (of_char b :: nat) \<and> (of_char b :: nat) \<le> 126) \<or>
         (of_char b :: nat) \<in> set [9, 10, 13]
      then b else CHR '' '')"

text \<open>The store and the requests of the scenarios of the specification.\<close>

definition alerts_db :: topics where
  "alerts_db = [\<lparr>topic_name = py ''alerts-1'', user_id = 42, chat_id = 4242, created_at = 0\<rparr>]"

definition post_request :: "string \<Rightarrow> bytes \<Rightarrow> request" where
  "post_request ctype raw =
     \<lparr>match_topic_name = py ''alerts-1'', content_type = py ctype, body = raw\<rparr>"

text \<open>A string without a character below code point 32 other than tab, line feed and
  carriage return.\<close>

definition control_free :: "pystr \<Rightarrow> bool" where
  "control_free s = list_all (\<lambda>c. 32 \<le> c \<or> c = 9 \<or> c = 10 \<or> c = 13) s"

text \<open>A character that free-text normalization leaves as it is.\<close>

definition plain_char :: "nat \<Rightarrow> bool" where
  "plain_char c =
     (\<not> (c < 32 \<and> c \<noteq> 9 \<and> c \<noteq> 10 \<and> c \<noteq> 13) \<and>
      c \<noteq> 95 \<and> c \<noteq> 42 \<and> c \<noteq> 91 \<and> c \<noteq> 93 \<and> c \<noteq> 96)"

section \<open>Properties\<close>

lemmas evals = json_loads_def starts_with_def skip_ws_def is_ws_def is_digit_def hexval_def
  simple_escape_def unescape_def prepend_def digits_value_def scan_int_part_def scan_frac_def
  scan_exp_def match_number_def py_def json_dumps_def hex_digit_def hex2_def
  hex4_lower_def hex8_lower_def escape_ascii_def encode_basestring_ascii_def decimal.simps
  int_repr_def floatstr_def newline_indent_def repr_char_def str_repr_def Let_def
  decode_utf8_replace_def utf8_step_def is_continuation_def
  webhook_handler_def handle_body_def send_notification_def notification_text_def
  format_message_def markdown_escape_def replace_char_def keep_char_def pretty_print_def
  literal_block_def extract_message_def get_message_def dict_get_def clean_raw_body_def
  get_topic_def alerts_db_def post_request_def py_str_def shallow_def

subsection \<open>The library functions on examples\<close>

text \<open>Values that Python 3.11 computes, recomputed from the definitions above.\<close>

lemma decode_utf8_replace_examples:
  "decode_utf8_replace (''caf'' @ [CHR 0xC3, CHR 0xA9]) = [99, 97, 102, 233]"
  "decode_utf8_replace [CHR 0xF0, CHR 0x9F, CHR 0x94, CHR 0x94] = [128276]"
  "decode_utf8_replace [CHR 0xFF] = [65533]"
  "decode_utf8_replace [CHR 0xE2, CHR 0x82] = [65533]"
  "decode_utf8_replace [CHR 0xED, CHR 0xA0, CHR 0x80] = [65533, 65533, 65533]"
  "decode_utf8_replace [CHR ''a'', CHR 0xC3, CHR ''(''] = [97, 65533, 40]"
  by (simp_all add: decode_utf8_replace_def utf8_step_def is_continuation_def)

lemma json_loads_examples:
  "json_loads E (py ''{\"message\": \"disk full\"}'') =
     Inr (PyDict [(py ''message'', PyStr (py ''disk full''))])"
  "json_loads E (py ''{\"a\": 1, \"b\": [true, null], \"a\": \"'' @ [92] @ py ''ud83d'' @ [92] @
       py ''udd14\"}'') =
     Inr (PyDict [(py ''a'', PyStr [128276]), (py ''b'', PyList [PyBool True, PyNone])])"
  "json_loads E (py '' [-7, 2.5e3] '') = Inr (PyList [PyInt (- 7), PyFloat (py ''2.5e3'')])"
  "json_loads E (py ''[1,]'') = Inl JSONDecodeError"
  "json_loads E (py ''{\"a\": 1} x'') = Inl JSONDecodeError"
  "json_loads E (py ''*bold* text'') = Inl JSONDecodeError"
  "json_loads E [] = Inl JSONDecodeError"
  by (auto simp: evals)

lemma json_dumps_example:
  "json_dumps E (PyDict [(py ''a'', PyList [PyInt 1, PyStr [233]]), (py ''b'', PyDict [])]) =
     Inr (py ''{'' @ [10] @ py ''  \"a\": ['' @ [10] @ py ''    1,'' @ [10] @
          py ''    \"'' @ [92] @ py ''u00e9\"'' @ [10] @ py ''  ],'' @ [10] @
          py ''  \"b\": {}'' @ [10] @ py ''}'')"
  by (simp add: evals)

text \<open>The recursion limit.  An array or object opened beyond the limit raises
  \<open>RecursionError\<close>, whatever follows it; below the limit a text that is cut off is a
  syntax error.\<close>

lemma scan_once_too_deep: "scan_once E n (replicate (Suc n) 91 @ t) = Inl RecursionError"
proof (induction n)
  case 0
  show ?case by simp
next
  case (Suc n)
  then show ?case
    by (simp add: skip_ws_def is_ws_def starts_with_def)
qed

lemma json_loads_too_deep:
  "json_loads E (replicate (3 + loads_spare_depth E) 91 @ t) = Inl RecursionError"
proof -
  have "3 + loads_spare_depth E = Suc (Suc (Suc (loads_spare_depth E)))"
    by simp
  moreover have "skip_ws (replicate (Suc (Suc (Suc (loads_spare_depth E)))) 91 @ t) =
      replicate (Suc (Suc (Suc (loads_spare_depth E)))) 91 @ t"
    by (simp add: skip_ws_def is_ws_def)
  moreover have "\<not> starts_with (replicate (Suc (Suc (Suc (loads_spare_depth E)))) 91 @ t) [65279]"
    by (simp add: starts_with_def)
  ultimately show ?thesis
    by (simp only: json_loads_def scan_once_too_deep if_False sum.case)
qed

lemma json_loads_nested_examples:
  "json_loads E (py ''[[1]]'') = Inr (PyList [PyList [PyInt 1]])"
  "json_loads E (py ''[['') = Inl JSONDecodeError"
  by (auto simp: evals)

lemma py_repr_example:
  "py_repr E (PyDict [(py ''a'', PyList [PyInt 1, PyStr (py ''x'')]), (py ''b'', PyNone)]) =
     [123, 39, 97, 39, 58, 32, 91, 49, 44, 32, 39, 120, 39, 93, 44, 32, 39, 98, 39, 58, 32,
      78, 111, 110, 101, 125]"
  by (simp add: evals)

text \<open>Scenario 2 of the specification: the message field of a JSON body is delivered.\<close>

lemma disk_full_delivered:
  "webhook_handler E alerts_db (\<lambda>cid text. Status 200)
       (post_request ''application/json'' ''{\"message\":\"disk full\"}'') =
     (Response 200 ''Notification sent'',
      [GetTopic (py ''alerts-1''), ReadBody,
       SendMessage 4242
         ([128276, 32, 42, 42] @ py ''alerts-1'' @ [42, 42, 10, 10] @ py ''disk full'')])"
  by (simp add: evals)

subsection \<open>The topic store\<close>

lemma primary_key_init: "primary_key (init_database None)"
  by (simp add: init_database_def primary_key_def)

lemma primary_key_add_topic:
  "primary_key db \<Longrightarrow> primary_key (snd (add_topic db name uid cid now))"
  by (auto simp: add_topic_def insert_topic_def primary_key_def)

lemma primary_key_delete_topic:
  "primary_key db \<Longrightarrow> primary_key (snd (delete_topic db uid name))"
  by (simp add: delete_topic_def primary_key_def distinct_map_filter)

lemma delete_filter_remove1:
  "primary_key db \<Longrightarrow> r \<in> set db \<Longrightarrow>
   filter (\<lambda>x. \<not> (user_id x = user_id r \<and> topic_name x = topic_name r)) db = remove1 r db"
proof (induction db)
  case Nil
  then show ?case by simp
next
  case (Cons a db)
  show ?case
  proof (cases "a = r")
    case True
    from Cons.prems(1) have "\<forall>x \<in> set db. topic_name x \<noteq> topic_name a"
      unfolding primary_key_def by (metis distinct.simps(2) image_eqI list.simps(9) set_map)
    then have "filter (\<lambda>x. \<not> (user_id x = user_id r \<and> topic_name x = topic_name r)) db = db"
      using True by (simp add: filter_id_conv)
    with True show ?thesis by simp
  next
    case False
    with Cons.prems have in_db: "r \<in> set db" and pk: "primary_key db"
      by (auto simp: primary_key_def)
    from Cons.prems(1) in_db have "topic_name a \<noteq> topic_name r"
      unfolding primary_key_def by (metis distinct.simps(2) image_eqI list.simps(9) set_map)
    with False Cons.IH [OF pk in_db] show ?thesis by simp
  qed
qed

lemma delete_rowcount_pos:
  "(delete_rowcount db uid name > 0) = (\<exists>r \<in> set db. user_id r = uid \<and> topic_name r = name)"
  by (auto simp: delete_rowcount_def filter_empty_conv)

text \<open>
  Claim C1.  \<open>add_topic\<close> is insert-if-absent.  When a row with the name is in the table,
  whoever owns it, the call returns \<open>False\<close> and the table is unchanged, so the row is
  not overwritten.  When no row has the name, the call returns \<open>True\<close> and the table is the
  previous rows followed by the one new row (name, owner, destination).
\<close>

theorem add_topic_insert_if_absent:
  "((\<exists>r \<in> set db. topic_name r = name) \<longrightarrow>
      add_topic db name uid cid now = (False, db)) \<and>
   (\<not> (\<exists>r \<in> set db. topic_name r = name) \<longrightarrow>
      add_topic db name uid cid now =
        (True, db @ [\<lparr>topic_name = name, user_id = uid, chat_id = cid, created_at = now\<rparr>]))"
  by (simp add: add_topic_def insert_topic_def)

theorem add_topic_insert_if_absent_witness:
  "add_topic [] (py ''alerts-1'') 42 42 0 =
     (True, [\<lparr>topic_name = py ''alerts-1'', user_id = 42, chat_id = 42, created_at = 0\<rparr>]) \<and>
   add_topic [\<lparr>topic_name = py ''alerts-1'', user_id = 42, chat_id = 42, created_at = 0\<rparr>]
       (py ''alerts-1'') 7 7 1 =
     (False, [\<lparr>topic_name = py ''alerts-1'', user_id = 42, chat_id = 42, created_at = 0\<rparr>])"
  using add_topic_insert_if_absent [of "[]" "py ''alerts-1''" 42 42 0]
    add_topic_insert_if_absent
      [of "[\<lparr>topic_name = py ''alerts-1'', user_id = 42, chat_id = 42, created_at = 0\<rparr>]"
          "py ''alerts-1''" 7 7 1]
  by simp

text \<open>
  Claim C2.  \<open>delete_topic\<close> is scoped by the owner.  On a table that satisfies its primary
  key, the call returns \<open>True\<close> exactly when a row with that owner and that name exists,
  and then that row and no other is removed.  When the name is registered to another
  owner, the call returns \<open>False\<close>, the table is unchanged and the topic is still found.
\<close>

theorem delete_topic_ownership_scoped:
  assumes "primary_key db"
  shows "(fst (delete_topic db uid name) =
            (\<exists>r \<in> set db. user_id r = uid \<and> topic_name r = name)) \<and>
         (\<forall>r \<in> set db. user_id r = uid \<and> topic_name r = name \<longrightarrow>
            delete_topic db uid name = (True, remove1 r db) \<and>
            set (snd (delete_topic db uid name)) = set db - {r}) \<and>
         (\<forall>r \<in> set db. topic_name r = name \<and> user_id r \<noteq> uid \<longrightarrow>
            delete_topic db uid name = (False, db) \<and>
            get_topic (snd (delete_topic db uid name)) name = Some r)"
proof (intro conjI ballI impI)
  show "fst (delete_topic db uid name) =
          (\<exists>r \<in> set db. user_id r = uid \<and> topic_name r = name)"
    by (simp add: delete_topic_def delete_rowcount_pos)
next
  fix r
  assume r: "r \<in> set db" and m: "user_id r = uid \<and> topic_name r = name"
  from r m have "delete_rowcount db uid name > 0"
    by (auto simp: delete_rowcount_pos)
  moreover from delete_filter_remove1 [OF assms r] m
  have "filter (\<lambda>x. \<not> (user_id x = uid \<and> topic_name x = name)) db = remove1 r db"
    by simp
  ultimately show del: "delete_topic db uid name = (True, remove1 r db)"
    by (simp add: delete_topic_def)
  from assms have "distinct db"
    by (simp add: primary_key_def distinct_map)
  with del show "set (snd (delete_topic db uid name)) = set db - {r}"
    by simp
next
  fix r
  assume r: "r \<in> set db" and m: "topic_name r = name \<and> user_id r \<noteq> uid"
  have no: "\<not> (\<exists>x \<in> set db. user_id x = uid \<and> topic_name x = name)"
  proof
    assume "\<exists>x \<in> set db. user_id x = uid \<and> topic_name x = name"
    then obtain x where x: "x \<in> set db" "user_id x = uid" "topic_name x = name"
      by blast
    from assms have "inj_on topic_name (set db)"
      by (simp add: primary_key_def distinct_map)
    with r x(1) x(3) m have "x = r"
      by (auto dest: inj_onD)
    with x(2) m show False by simp
  qed
  then have "filter (\<lambda>x. \<not> (user_id x = uid \<and> topic_name x = name)) db = db"
    by (auto simp: filter_id_conv)
  moreover from no have "\<not> delete_rowcount db uid name > 0"
    using delete_rowcount_pos [of db uid name] by blast
  ultimately show same: "delete_topic db uid name = (False, db)"
    by (simp add: delete_topic_def)
  from assms have inj: "inj_on topic_name (set db)"
    by (simp add: primary_key_def distinct_map)
  have "find (\<lambda>x. topic_name x = name) db = Some r"
  proof -
    obtain y where y: "find (\<lambda>x. topic_name x = name) db = Some y"
      using r m by (cases "find (\<lambda>x. topic_name x = name) db") (auto simp: find_None_iff)
    then have "y \<in> set db" "topic_name y = name"
      by (auto simp: find_Some_iff)
    with inj r m have "y = r"
      by (auto dest: inj_onD)
    with y show ?thesis by simp
  qed
  with same show "get_topic (snd (delete_topic db uid name)) name = Some r"
    by (simp add: get_topic_def)
qed

theorem delete_topic_ownership_scoped_witness:
  "primary_key [\<lparr>topic_name = py ''alerts-1'', user_id = 42, chat_id = 42, created_at = 0\<rparr>] \<and>
   delete_topic [\<lparr>topic_name = py ''alerts-1'', user_id = 42, chat_id = 42, created_at = 0\<rparr>]
       7 (py ''alerts-1'') =
     (False, [\<lparr>topic_name = py ''alerts-1'', user_id = 42, chat_id = 42, created_at = 0\<rparr>]) \<and>
   delete_topic [\<lparr>topic_name = py ''alerts-1'', user_id = 42, chat_id = 42, created_at = 0\<rparr>]
       42 (py ''alerts-1'') = (True, [])"
proof -
  let ?row = "\<lparr>topic_name = py ''alerts-1'', user_id = 42, chat_id = 42, created_at = 0\<rparr>"
  have pk: "primary_key [?row]"
    by (simp add: primary_key_def)
  from delete_topic_ownership_scoped [OF pk, of 7 "py ''alerts-1''"]
  have "delete_topic [?row] 7 (py ''alerts-1'') = (False, [?row])"
    by simp
  moreover from delete_topic_ownership_scoped [OF pk, of 42 "py ''alerts-1''"]
  have "delete_topic [?row] 42 (py ''alerts-1'') = (True, [])"
    by simp
  ultimately show ?thesis using pk by simp
qed

subsection \<open>The webhook handler\<close>

lemma json_loads_backtick: "json_loads E (96 # cs) = Inl JSONDecodeError"
  by (simp add: json_loads_def starts_with_def skip_ws_def is_ws_def py_def match_number_def
      scan_int_part_def)

lemma replace_char_Nil: "replace_char old new [] = []"
  by (simp add: replace_char_def)

lemma replace_char_Cons:
  "replace_char old new (c # s) = (if c = old then new else [c]) @ replace_char old new s"
  by (simp add: replace_char_def)

lemma markdown_escape_eq: "markdown_escape s = escape_markup s"
  by (induction s)
     (simp_all add: markdown_escape_def escape_markup_def replace_char_Nil replace_char_Cons)

lemma keep_char_eq: "filter keep_char s = strip_controls s"
  unfolding strip_controls_def keep_char_def
  by (rule filter_cong) auto

lemma escape_markup_append: "escape_markup (a @ b) = escape_markup a @ escape_markup b"
  by (simp add: escape_markup_def)

lemma strip_controls_append: "strip_controls (a @ b) = strip_controls a @ strip_controls b"
  by (simp add: strip_controls_def)

lemma utf8_replace_nonempty: "bs \<noteq> [] \<Longrightarrow> utf8_replace bs \<noteq> []"
  by (cases bs) (auto split: prod.splits)

lemma decode_nonempty: "(decode_utf8_replace raw = []) = (raw = [])"
  using utf8_replace_nonempty [of "map of_char raw"]
  by (auto simp: decode_utf8_replace_def)

lemma sends_at_most_once: "length (filter is_send (snd (webhook_handler E db post req))) \<le> 1"
  by (simp add: webhook_handler_def handle_body_def is_send_def
      split: option.splits sum.splits prod.splits)

text \<open>
  Whenever the handler does format a message, the result has no control character other
  than tab, line feed and carriage return, provided \<open>repr\<close> prints a \<open>float\<close> without
  one: the pretty-printed block is ASCII, and the free-text branch strips them.
\<close>

lemma control_free_append [simp]:
  "control_free (a @ b) = (control_free a \<and> control_free b)"
  by (simp add: control_free_def)

lemma control_free_Cons [simp]:
  "control_free (c # s) = ((32 \<le> c \<or> c = 9 \<or> c = 10 \<or> c = 13) \<and> control_free s)"
  by (simp add: control_free_def)

lemma control_free_Nil [simp]: "control_free []"
  by (simp add: control_free_def)

lemma control_free_py_join:
  "control_free sep \<Longrightarrow> list_all control_free xs \<Longrightarrow> control_free (py_join sep xs)"
  by (induction sep xs rule: py_join.induct) simp_all

lemma control_free_hex2: "control_free (hex2 n)"
  by (simp add: hex2_def hex_digit_def)

lemma control_free_hex4: "control_free (hex4_lower n)"
  by (simp add: hex4_lower_def control_free_hex2)

lemma control_free_escape_ascii: "control_free (escape_ascii c)"
  by (simp add: escape_ascii_def control_free_hex4)

lemma control_free_concat:
  "(\<And>x. control_free (f x)) \<Longrightarrow> control_free (concat (map f s))"
  by (induction s) simp_all

lemma control_free_basestring: "control_free (encode_basestring_ascii s)"
  by (simp add: encode_basestring_ascii_def control_free_concat control_free_escape_ascii)

lemma control_free_decimal: "control_free (decimal n)"
  by (induction n rule: decimal.induct) (subst decimal.simps, simp)

lemma control_free_int_repr: "control_free (int_repr i)"
  by (simp add: int_repr_def control_free_decimal)

lemma control_free_indent: "control_free (indent_str n)"
  by (induction n) simp_all

lemma control_free_newline_indent: "control_free (newline_indent n)"
  by (simp add: newline_indent_def control_free_indent)

lemma control_free_py: "list_all (\<lambda>c. 32 \<le> (of_char c :: nat)) s \<Longrightarrow> control_free (py s)"
  by (induction s) (simp_all add: py_def)

lemma control_free_floatstr:
  "(\<And>lit. control_free (float_repr E lit)) \<Longrightarrow> control_free (floatstr E lit)"
  by (simp add: floatstr_def py_def)

lemma control_free_iterencode:
  "(\<forall>lit. control_free (float_repr E lit)) \<longrightarrow> control_free (iterencode E level v)"
  "(\<forall>lit. control_free (float_repr E lit)) \<longrightarrow>
     list_all control_free (iterencode_list E level vs)"
  "(\<forall>lit. control_free (float_repr E lit)) \<longrightarrow>
     list_all control_free (iterencode_dict E level kvs)"
proof (induction E level v and E level vs and E level kvs
    rule: iterencode_iterencode_list_iterencode_dict.induct)
  case (4 E level lit)
  then show ?case by (simp add: control_free_floatstr)
next
  case (6 E level vs)
  then show ?case
    by (simp add: py_def control_free_newline_indent control_free_py_join)
next
  case (7 E level kvs)
  then show ?case
    by (simp add: py_def control_free_newline_indent control_free_py_join)
qed (simp_all add: py_def control_free_int_repr control_free_basestring)

lemma control_free_json_dumps:
  "(\<And>lit. control_free (float_repr E lit)) \<Longrightarrow> json_dumps E v = Inr payload \<Longrightarrow>
   control_free payload"
  by (auto simp: json_dumps_def control_free_iterencode(1) split: if_splits)

lemma control_free_escape_markup: "control_free s \<Longrightarrow> control_free (escape_markup s)"
  by (induction s) (simp_all add: escape_markup_def)

lemma control_free_filter_keep: "control_free (filter keep_char s)"
  by (induction s) (auto simp: keep_char_def)

lemma control_free_join_kept: "join_kept xs = Inr s \<Longrightarrow> control_free s"
  by (induction xs arbitrary: s rule: join_kept.induct)
     (auto simp: keep_char_def split: sum.splits if_splits)

lemma control_free_clean_message: "clean_message m = Inr s \<Longrightarrow> control_free s"
  by (cases m) (auto simp: control_free_filter_keep control_free_join_kept)

lemma formatted_message_control_free:
  assumes "\<And>lit. control_free (float_repr E lit)"
    and "format_message E message = Inr formatted"
  shows "control_free formatted"
proof (cases "pretty_print E message")
  case (Inr f)
  with assms(2) have "formatted = f" by (simp add: format_message_def)
  moreover from Inr obtain v payload
    where "json_dumps E v = Inr payload" "f = literal_block payload"
    by (auto simp: pretty_print_def split: sum.splits)
  ultimately show ?thesis
    using control_free_json_dumps [OF assms(1)]
    by (simp add: literal_block_def py_def)
next
  case (Inl e)
  with assms(2) obtain c where "clean_message message = Inr c" "formatted = markdown_escape c"
    by (auto simp: format_message_def split: if_splits sum.splits)
  then show ?thesis
    by (simp add: markdown_escape_eq control_free_escape_markup control_free_clean_message)
qed

text \<open>
  Claim C3.  Normalization is meant never to raise.  The handler does raise on a body that
  is valid JSON but not an object when the content type is \<open>application/json\<close>: for the
  body \<open>[1]\<close> the decoded value is a list, \<open>data.get\<close> raises \<open>AttributeError\<close>, which
  \<open>except json.JSONDecodeError\<close> does not handle, and the request ends in the response 500
  of \<open>except Exception\<close>.  The same body under another content type is normalized: it is
  pretty-printed in a literal block.
\<close>

theorem json_array_body_raises:
  "extract_message E (py ''application/json'') ''[1]'' = Inl AttributeError \<and>
   webhook_handler E alerts_db post (post_request ''application/json'' ''[1]'') =
     (Response 500 ''Internal server error'', [GetTopic (py ''alerts-1''), ReadBody]) \<and>
   extract_message E (py ''text/plain'') ''[1]'' = Inr (PyStr (py ''[1]'')) \<and>
   format_message E (PyStr (py ''[1]'')) = Inr (literal_block [91, 10, 32, 32, 49, 10, 93])"
  by (auto simp: evals)

text \<open>A message field that is a number meets the same fate at line 290, where
  \<open>len(message)\<close> raises \<open>TypeError\<close> outside the inner \<open>try\<close>.\<close>

lemma numeric_message_raises:
  "extract_message E (py ''application/json'') ''{\"message\": 5}'' = Inr (PyInt 5) \<and>
   webhook_handler E alerts_db post (post_request ''application/json'' ''{\"message\": 5}'') =
     (Response 500 ''Internal server error'', [GetTopic (py ''alerts-1''), ReadBody])"
  by (auto simp: evals)

text \<open>
  Claim C4.  A request for a topic name that is not in the store is answered 404
  \<open>Topic not found\<close>.  The only effect is the lookup: the body is not read and nothing is
  sent to the backend, so the result is the same whatever the body is.
\<close>

theorem unknown_topic_not_found:
  assumes "get_topic db (match_topic_name req) = None"
  shows "webhook_handler E db post req =
           (Response 404 ''Topic not found'', [GetTopic (match_topic_name req)]) \<and>
         (\<forall>raw. webhook_handler E db post (req\<lparr>body := raw\<rparr>) = webhook_handler E db post req)"
  using assms by (simp add: webhook_handler_def)

theorem unknown_topic_not_found_witness:
  "\<forall>E post raw. webhook_handler E alerts_db post
       \<lparr>match_topic_name = py ''unknown-topic'', content_type = py ''text/plain'', body = raw\<rparr> =
     (Response 404 ''Topic not found'', [GetTopic (py ''unknown-topic'')])"
proof (intro allI)
  fix E post raw
  have "get_topic alerts_db (match_topic_name
      \<lparr>match_topic_name = py ''unknown-topic'', content_type = py ''text/plain'', body = raw\<rparr>) = None"
    by (simp add: get_topic_def alerts_db_def py_def)
  from unknown_topic_not_found [OF this, of E post]
  show "webhook_handler E alerts_db post
       \<lparr>match_topic_name = py ''unknown-topic'', content_type = py ''text/plain'', body = raw\<rparr> =
     (Response 404 ''Topic not found'', [GetTopic (py ''unknown-topic'')])"
    by simp
qed

text \<open>
  Claim C5.  Empty-payload short-circuit.  The empty condition of the source is
  \<open>not message\<close>.  Whenever the message extracted from the request for a registered topic
  is false in this sense, the response is 400 \<open>No message provided\<close> and the effects are
  the lookup and the reading of the body only: nothing is sent to the backend.
\<close>

theorem empty_message_short_circuit:
  assumes "get_topic db (match_topic_name req) = Some topic_info"
    and "extract_message E (content_type req) (body req) = Inr message"
    and "\<not> truthy E message"
  shows "webhook_handler E db post req =
           (Response 400 ''No message provided'', [GetTopic (match_topic_name req), ReadBody]) \<and>
         filter is_send (snd (webhook_handler E db post req)) = []"
  using assms by (simp add: webhook_handler_def handle_body_def is_send_def)

theorem empty_message_short_circuit_witness:
  "\<forall>E post. webhook_handler E alerts_db post (post_request ''text/plain'' []) =
     (Response 400 ''No message provided'', [GetTopic (py ''alerts-1''), ReadBody])"
proof (intro allI)
  fix E post
  let ?req = "post_request ''text/plain'' []"
  have a: "get_topic alerts_db (match_topic_name ?req) = Some (hd alerts_db)"
    by (simp add: get_topic_def alerts_db_def post_request_def)
  have b: "extract_message E (content_type ?req) (body ?req) = Inr (PyStr [])"
    by (simp add: evals)
  have c: "\<not> truthy E (PyStr [])" by simp
  from empty_message_short_circuit [OF a b c, of post]
  show "webhook_handler E alerts_db post ?req =
     (Response 400 ''No message provided'', [GetTopic (py ''alerts-1''), ReadBody])"
    by (simp add: post_request_def)
qed

text \<open>
  Claim C6, as stated, fails: the source tests \<open>resp.status == 200\<close>, so a backend response
  with another status of the 2xx class, here 201, is answered 500
  \<open>Failed to send notification\<close>.
\<close>

theorem backend_201_counterexample:
  "\<forall>E. webhook_handler E alerts_db (\<lambda>cid text. Status 201) (post_request ''text/plain'' ''hi'') =
     (Response 500 ''Failed to send notification'',
      [GetTopic (py ''alerts-1''), ReadBody,
       SendMessage 4242 ([128276, 32, 42, 42] @ py ''alerts-1'' @ [42, 42, 10, 10] @ py ''hi'')])"
  by (simp add: evals)

text \<open>
  Claim C6, amended.  For a request that reaches the backend (registered topic, a message
  that is not empty and that normalization formats), the backend is called exactly once,
  with the destination of the topic and the composed text, and its outcome decides the
  response: status 200 gives 200 \<open>Notification sent\<close>, any other status gives 500
  \<open>Failed to send notification\<close>, a transport failure gives 500 \<open>Internal server error\<close>.
  No request calls the backend more than once.
\<close>

theorem backend_outcome_mapping:
  assumes "get_topic db (match_topic_name req) = Some topic_info"
    and "extract_message E (content_type req) (body req) = Inr message"
    and "truthy E message"
    and "py_len message = Inr n"
    and "format_message E message = Inr formatted"
  shows "webhook_handler E db post req =
           ((case post (chat_id topic_info) (notification_text (match_topic_name req) formatted) of
               Status st \<Rightarrow>
                 if st = 200 then Response 200 ''Notification sent''
                 else Response 500 ''Failed to send notification''
             | Raised \<Rightarrow> Response 500 ''Internal server error''),
            [GetTopic (match_topic_name req), ReadBody,
             SendMessage (chat_id topic_info)
               (notification_text (match_topic_name req) formatted)]) \<and>
         (\<forall>db' post' req'.
            length (filter is_send (snd (webhook_handler E db' post' req'))) \<le> 1)"
  using assms sends_at_most_once
  by (simp add: webhook_handler_def handle_body_def send_notification_def
      split: post_outcome.splits)

theorem backend_outcome_mapping_witness:
  "\<forall>E. fst (webhook_handler E alerts_db (\<lambda>cid text. Status 200)
            (post_request ''text/plain'' ''hi'')) = Response 200 ''Notification sent'' \<and>
        fst (webhook_handler E alerts_db (\<lambda>cid text. Status 404)
            (post_request ''text/plain'' ''hi'')) = Response 500 ''Failed to send notification'' \<and>
        fst (webhook_handler E alerts_db (\<lambda>cid text. Raised)
            (post_request ''text/plain'' ''hi'')) = Response 500 ''Internal server error''"
proof (intro allI)
  fix E
  let ?req = "post_request ''text/plain'' ''hi''"
  have a: "get_topic alerts_db (match_topic_name ?req) = Some (hd alerts_db)"
    by (simp add: get_topic_def alerts_db_def post_request_def)
  have b: "extract_message E (content_type ?req) (body ?req) = Inr (PyStr (py ''hi''))"
    by (simp add: evals)
  have c: "truthy E (PyStr (py ''hi''))" by (simp add: py_def)
  have d: "py_len (PyStr (py ''hi'')) = Inr 2" by (simp add: py_def)
  have e: "format_message E (PyStr (py ''hi'')) = Inr (py ''hi'')"
    by (simp add: evals)
  note m = backend_outcome_mapping [OF a b c d e]
  from m [of "\<lambda>cid text. Status 200"] m [of "\<lambda>cid text. Status 404"] m [of "\<lambda>cid text. Raised"]
  show "fst (webhook_handler E alerts_db (\<lambda>cid text. Status 200) ?req) =
          Response 200 ''Notification sent'' \<and>
        fst (webhook_handler E alerts_db (\<lambda>cid text. Status 404) ?req) =
          Response 500 ''Failed to send notification'' \<and>
        fst (webhook_handler E alerts_db (\<lambda>cid text. Raised) ?req) =
          Response 500 ''Internal server error''"
    by simp
qed


lemma format_free_text:
  "json_loads E s = Inl JSONDecodeError \<Longrightarrow>
   format_message E (PyStr s) = Inr (markdown_escape (filter keep_char s))"
  by (simp add: format_message_def pretty_print_def)

text \<open>
  Free-text normalization where it applies.  For a candidate string that \<open>json.loads\<close>
  rejects with \<open>JSONDecodeError\<close>, the formatted message is the candidate with every
  character below code point 32 other than tab, line feed and carriage return stripped,
  and then every underscore, asterisk, opening and closing square bracket and backtick
  prefixed by a backslash.  The five calls of \<open>replace\<close> of the source amount to this
  single pass, since the backslash they insert is none of the five characters.
\<close>

lemma free_text_normalization:
  assumes "json_loads E s = Inl JSONDecodeError"
  shows "format_message E (PyStr s) = Inr (escape_markup (strip_controls s))"
proof -
  from assms have "format_message E (PyStr s) = Inr (markdown_escape (filter keep_char s))"
    by (rule format_free_text)
  also have "markdown_escape (filter keep_char s) = escape_markup (strip_controls s)"
    by (simp only: markdown_escape_eq keep_char_eq)
  finally show ?thesis .
qed

text \<open>Scenario 5 of the specification: the asterisks of a plain-text body are escaped.\<close>

lemma bold_text_escaped:
  "format_message E (PyStr (py ''*bold* text'')) =
     Inr ([92, 42] @ py ''bold'' @ [92, 42] @ py '' text'')"
  "webhook_handler E alerts_db (\<lambda>cid text. Status 200)
       (post_request ''text/plain'' ''*bold* text'') =
     (Response 200 ''Notification sent'',
      [GetTopic (py ''alerts-1''), ReadBody,
       SendMessage 4242 ([128276, 32, 42, 42] @ py ''alerts-1'' @ [42, 42, 10, 10] @
         [92, 42] @ py ''bold'' @ [92, 42] @ py '' text'')])"
  by (simp_all add: evals)

text \<open>A candidate on which \<open>json.loads\<close> raises another exception is not treated as free
  text: the exception is none of the two that line 309 handles, so it leaves
  \<open>format_message\<close>.\<close>

lemma format_uncaught:
  "json_loads E s = Inl e \<Longrightarrow> e \<noteq> JSONDecodeError \<Longrightarrow> e \<noteq> TypeError \<Longrightarrow>
   format_message E (PyStr s) = Inl e"
  by (simp add: format_message_def pretty_print_def)

lemma takeWhile_digits_ones:
  "takeWhile is_digit (replicate k 49 @ 32 # t) = replicate k 49"
  "dropWhile is_digit (replicate k 49 @ 32 # t) = 32 # t"
  by (induction k) (simp_all add: is_digit_def)

text \<open>An integer literal of one digit more than \<open>int\<close> converts, followed by text that is
  not JSON.\<close>

lemma over_long_integer_raises:
  assumes "int_max_str_digits E \<noteq> 0"
  shows "json_loads E (replicate (Suc (int_max_str_digits E)) 49 @ py '' *bold*'') = Inl ValueError"
    and "format_message E (PyStr (replicate (Suc (int_max_str_digits E)) 49 @ py '' *bold*'')) =
           Inl ValueError"
proof -
  let ?k = "int_max_str_digits E"
  from assms
  have mn: "match_number E (49 # replicate ?k 49 @ 32 # py ''*bold*'') = Inl ValueError"
    by (simp add: match_number_def Let_def scan_int_part_def takeWhile_digits_ones
        scan_frac_def scan_exp_def py_def)
  have "scan_once E n (49 # replicate ?k 49 @ 32 # py ''*bold*'') = Inl ValueError" for n
    using mn by (simp add: starts_with_def py_def)
  then show l: "json_loads E (replicate (Suc ?k) 49 @ py '' *bold*'') = Inl ValueError"
    by (simp add: json_loads_def starts_with_def skip_ws_def is_ws_def py_def)
  from format_uncaught [OF l]
  show "format_message E (PyStr (replicate (Suc ?k) 49 @ py '' *bold*'')) = Inl ValueError"
    by simp
qed

lemma decode_ascii_brackets:
  "decode_utf8_replace (replicate k CHR ''['' @ ''*bold*'') = replicate k 91 @ py ''*bold*''"
proof -
  have "utf8_replace (replicate k 91 @ t) = replicate k 91 @ utf8_replace t" for t
    by (induction k) (simp_all add: utf8_step_def)
  then show ?thesis
    by (simp add: decode_utf8_replace_def py_def utf8_step_def)
qed

text \<open>
  Claim C7.  Free-text normalization is meant for every candidate string that does not
  parse as structured data (the comment of line 310: not JSON or invalid JSON).  The handler
  applies it only where \<open>json.loads\<close> raises \<open>JSONDecodeError\<close>.  A candidate that opens one
  more array than the recursion limit allows is not JSON, but \<open>json.loads\<close> raises
  \<open>RecursionError\<close>, which \<open>except (json.JSONDecodeError, TypeError)\<close> does not handle:
  nothing is stripped or escaped, and the request ends in the response 500 with nothing
  sent.  The same happens with \<open>ValueError\<close> on an integer literal that is too long
  (lemma \<open>over_long_integer_raises\<close>).
\<close>

theorem unparsable_candidate_raises:
  "json_loads E (replicate (3 + loads_spare_depth E) 91 @ py ''*bold*'') = Inl RecursionError \<and>
   format_message E (PyStr (replicate (3 + loads_spare_depth E) 91 @ py ''*bold*'')) =
     Inl RecursionError \<and>
   webhook_handler E alerts_db post
       (post_request ''text/plain'' (replicate (3 + loads_spare_depth E) CHR ''['' @ ''*bold*'')) =
     (Response 500 ''Internal server error'', [GetTopic (py ''alerts-1''), ReadBody])"
proof (intro conjI)
  let ?s = "replicate (3 + loads_spare_depth E) 91 @ py ''*bold*''"
  show l: "json_loads E ?s = Inl RecursionError"
    by (rule json_loads_too_deep)
  from format_uncaught [OF l]
  show f: "format_message E (PyStr ?s) = Inl RecursionError"
    by simp
  have "extract_message E (py ''text/plain'')
          (replicate (3 + loads_spare_depth E) CHR ''['' @ ''*bold*'') = Inr (PyStr ?s)"
    by (simp add: extract_message_def decode_ascii_brackets) (simp add: py_def)
  with f show "webhook_handler E alerts_db post
       (post_request ''text/plain'' (replicate (3 + loads_spare_depth E) CHR ''['' @ ''*bold*'')) =
     (Response 500 ''Internal server error'', [GetTopic (py ''alerts-1''), ReadBody])"
    by (simp add: webhook_handler_def handle_body_def post_request_def get_topic_def
        alerts_db_def)
qed

lemma escaped_chars_kept:
  "c \<in> set (escape_markup (strip_controls s)) \<Longrightarrow> \<not> (c < 32 \<and> c \<noteq> 9 \<and> c \<noteq> 10 \<and> c \<noteq> 13)"
  by (induction s) (auto simp: escape_markup_def strip_controls_def split: if_splits)

lemma escape_strip_Cons:
  "escape_markup (strip_controls (c # s)) =
     (if c < 32 \<and> c \<noteq> 9 \<and> c \<noteq> 10 \<and> c \<noteq> 13 then []
      else if c = 95 \<or> c = 42 \<or> c = 91 \<or> c = 93 \<or> c = 96 then [92, c]
      else [c]) @ escape_markup (strip_controls s)"
  by (simp add: escape_markup_def strip_controls_def)

lemma payload_unchanged_iff:
  "(escape_markup (strip_controls s) = s) = list_all plain_char s"
proof (induction s)
  case Nil
  then show ?case by (simp add: escape_markup_def strip_controls_def)
next
  case (Cons c s)
  show ?case
  proof (cases "c < 32 \<and> c \<noteq> 9 \<and> c \<noteq> 10 \<and> c \<noteq> 13")
    case True
    have "escape_markup (strip_controls (c # s)) \<noteq> c # s"
    proof
      assume eq: "escape_markup (strip_controls (c # s)) = c # s"
      then have "c \<in> set (escape_markup (strip_controls (c # s)))" by simp
      from escaped_chars_kept [OF this] True show False by simp
    qed
    with True show ?thesis by (simp add: plain_char_def)
  next
    case ctl: False
    show ?thesis
    proof (cases "c = 95 \<or> c = 42 \<or> c = 91 \<or> c = 93 \<or> c = 96")
      case True
      with ctl have "escape_markup (strip_controls (c # s)) \<noteq> c # s"
        by (auto simp: escape_strip_Cons)
      with True show ?thesis by (auto simp: plain_char_def)
    next
      case False
      with ctl Cons.IH show ?thesis
        by (auto simp: escape_strip_Cons plain_char_def)
    qed
  qed
qed

text \<open>
  Claim C8, as stated, fails.  The candidate \<open>[1]\<close> is normalized to a literal block whose
  payload is the pretty-printed list.  Normalizing that output again does not recognise the
  block: it starts with a backtick, does not parse as structured data and is treated as
  free text, so the square brackets of the payload are escaped.
\<close>

theorem pretty_print_twice_counterexample:
  "\<forall>E. format_message E (PyStr (py ''[1]'')) = Inr (literal_block [91, 10, 32, 32, 49, 10, 93]) \<and>
        format_message E (PyStr (literal_block [91, 10, 32, 32, 49, 10, 93])) =
          Inr ([92, 96, 92, 96, 92, 96] @ py ''json'' @ [10] @
               [92, 91, 10, 32, 32, 49, 10, 92, 93] @ [10, 92, 96, 92, 96, 92, 96])"
  by (auto simp: evals)

text \<open>
  Claim C8, amended.  For every candidate string that \<open>json.loads\<close> decodes and whose
  value \<open>json.dumps\<close> prints, the normalized output is the literal block of the
  pretty-printed value, and normalizing that output again treats it as free text: the
  backticks of the marker are escaped, and the content payload comes back with its control
  characters stripped and its markup characters escaped.  The payload is unchanged exactly
  when all its characters are plain (no stripped control character, no underscore,
  asterisk, square bracket or backtick).
\<close>

theorem renormalized_block_is_free_text:
  assumes "json_loads E s = Inr v"
    and "json_dumps E v = Inr payload"
  shows "format_message E (PyStr s) = Inr (literal_block payload) \<and>
         format_message E (PyStr (literal_block payload)) =
           Inr ([92, 96, 92, 96, 92, 96] @ py ''json'' @ [10] @
                escape_markup (strip_controls payload) @
                [10, 92, 96, 92, 96, 92, 96]) \<and>
         ((escape_markup (strip_controls payload) = payload) = list_all plain_char payload)"
proof (intro conjI)
  from assms show "format_message E (PyStr s) = Inr (literal_block payload)"
    by (simp add: format_message_def pretty_print_def)
next
  have fence: "literal_block payload =
      96 # ([96, 96] @ py ''json'' @ [10] @ payload @ [10, 96, 96, 96])"
    by (simp add: literal_block_def)
  have "json_loads E (literal_block payload) = Inl JSONDecodeError"
    unfolding fence by (rule json_loads_backtick)
  then have "format_message E (PyStr (literal_block payload)) =
               Inr (markdown_escape (filter keep_char (literal_block payload)))"
    by (rule format_free_text)
  also have "markdown_escape (filter keep_char (literal_block payload)) =
               escape_markup (strip_controls (literal_block payload))"
    by (simp only: markdown_escape_eq keep_char_eq)
  also have "escape_markup (strip_controls (literal_block payload)) =
               escape_markup (strip_controls ([96, 96, 96] @ py ''json'' @ [10])) @
               escape_markup (strip_controls payload) @
               escape_markup (strip_controls [10, 96, 96, 96])"
    by (simp only: literal_block_def strip_controls_append escape_markup_append append_assoc)
  also have "escape_markup (strip_controls ([96, 96, 96] @ py ''json'' @ [10])) =
               [92, 96, 92, 96, 92, 96] @ py ''json'' @ [10]"
    by (simp add: strip_controls_def escape_markup_def py_def)
  also have "escape_markup (strip_controls [10, 96, 96, 96]) = [10, 92, 96, 92, 96, 92, 96]"
    by (simp add: strip_controls_def escape_markup_def)
  finally show "format_message E (PyStr (literal_block payload)) =
           Inr ([92, 96, 92, 96, 92, 96] @ py ''json'' @ [10] @
                escape_markup (strip_controls payload) @
                [10, 92, 96, 92, 96, 92, 96])"
    by simp
next
  show "(escape_markup (strip_controls payload) = payload) = list_all plain_char payload"
    by (rule payload_unchanged_iff)
qed

theorem renormalized_block_is_free_text_witness:
  "\<forall>E. format_message E (PyStr (py ''{\"a\": true}'')) =
          Inr (literal_block (py ''{'' @ [10] @ py ''  \"a\": true'' @ [10] @ py ''}'')) \<and>
        format_message E
            (PyStr (literal_block (py ''{'' @ [10] @ py ''  \"a\": true'' @ [10] @ py ''}''))) =
          Inr ([92, 96, 92, 96, 92, 96] @ py ''json'' @ [10] @
               py ''{'' @ [10] @ py ''  \"a\": true'' @ [10] @ py ''}'' @
               [10, 92, 96, 92, 96, 92, 96])"
proof (intro allI)
  fix E
  have a: "json_loads E (py ''{\"a\": true}'') = Inr (PyDict [(py ''a'', PyBool True)])"
    by (simp add: evals)
  have d: "json_dumps E (PyDict [(py ''a'', PyBool True)]) =
             Inr (py ''{'' @ [10] @ py ''  \"a\": true'' @ [10] @ py ''}'')"
    by (simp add: evals)
  have p: "list_all plain_char (py ''{'' @ [10] @ py ''  \"a\": true'' @ [10] @ py ''}'')"
    by (simp add: py_def plain_char_def)
  from renormalized_block_is_free_text [OF a d] p
  show "format_message E (PyStr (py ''{\"a\": true}'')) =
          Inr (literal_block (py ''{'' @ [10] @ py ''  \"a\": true'' @ [10] @ py ''}'')) \<and>
        format_message E
            (PyStr (literal_block (py ''{'' @ [10] @ py ''  \"a\": true'' @ [10] @ py ''}''))) =
          Inr ([92, 96, 92, 96, 92, 96] @ py ''json'' @ [10] @
               py ''{'' @ [10] @ py ''  \"a\": true'' @ [10] @ py ''}'' @
               [10, 92, 96, 92, 96, 92, 96])"
    by simp
qed

text \<open>
  Claim C9, as stated, fails in both directions.  Under \<open>application/json\<close> the non-empty
  body \<open>{"message": ""}\<close> is answered 400.  Under another content type the non-empty body
  that consists of the byte 1 is not answered 400, but its formatted message is the empty
  string, and the notification is sent with nothing after the header.
\<close>

theorem nonempty_body_counterexample:
  "\<forall>E post.
     webhook_handler E alerts_db post
         (post_request ''application/json'' ''{\"message\": \"\"}'') =
       (Response 400 ''No message provided'', [GetTopic (py ''alerts-1''), ReadBody]) \<and>
     format_message E (PyStr (decode_utf8_replace [CHR 0x01])) = Inr [] \<and>
     webhook_handler E alerts_db (\<lambda>cid text. Status 200)
         (post_request ''text/plain'' [CHR 0x01]) =
       (Response 200 ''Notification sent'',
        [GetTopic (py ''alerts-1''), ReadBody,
         SendMessage 4242 ([128276, 32, 42, 42] @ py ''alerts-1'' @ [42, 42, 10, 10])])"
  by (simp add: evals)

lemma send_notification_not_400:
  "send_notification post cid text \<noteq> Inr (Response 400 ''No message provided'')"
  by (simp add: send_notification_def split: post_outcome.splits)

lemma no_message_iff_falsy:
  assumes "get_topic db (match_topic_name req) = Some topic_info"
  shows "(fst (webhook_handler E db post req) = Response 400 ''No message provided'') =
           (\<exists>message. extract_message E (content_type req) (body req) = Inr message \<and>
                      \<not> truthy E message)"
proof (cases "extract_message E (content_type req) (body req)")
  case (Inl e)
  with assms show ?thesis
    by (simp add: webhook_handler_def handle_body_def)
next
  case (Inr message)
  show ?thesis
  proof (cases "truthy E message")
    case False
    with assms Inr show ?thesis
      by (simp add: webhook_handler_def handle_body_def)
  next
    case True
    show ?thesis
    proof (cases "py_len message")
      case (Inl e)
      with assms Inr True show ?thesis
        by (simp add: webhook_handler_def handle_body_def)
    next
      case len: (Inr n)
      show ?thesis
      proof (cases "format_message E message")
        case (Inl e)
        with assms Inr True len show ?thesis
          by (simp add: webhook_handler_def handle_body_def)
      next
        case fm: (Inr formatted)
        with assms Inr True len show ?thesis
          by (cases "post (chat_id topic_info)
                (notification_text (match_topic_name req) formatted)")
             (simp_all add: webhook_handler_def handle_body_def send_notification_def)
      qed
    qed
  qed
qed

text \<open>
  Claim C9, amended.  For a registered topic the response is 400 \<open>No message provided\<close>
  exactly when a message is extracted and it is false as a Python object; when the declared
  content type is not \<open>application/json\<close>, that is exactly when the body is empty.
\<close>

theorem no_message_provided_iff:
  assumes "get_topic db (match_topic_name req) = Some topic_info"
  shows "((fst (webhook_handler E db post req) = Response 400 ''No message provided'') =
            (\<exists>message. extract_message E (content_type req) (body req) = Inr message \<and>
                       \<not> truthy E message)) \<and>
         (content_type req \<noteq> py ''application/json'' \<longrightarrow>
            (fst (webhook_handler E db post req) = Response 400 ''No message provided'') =
              (body req = []))"
proof (intro conjI impI)
  show "(fst (webhook_handler E db post req) = Response 400 ''No message provided'') =
            (\<exists>message. extract_message E (content_type req) (body req) = Inr message \<and>
                       \<not> truthy E message)"
    using assms by (rule no_message_iff_falsy)
next
  assume "content_type req \<noteq> py ''application/json''"
  then have "extract_message E (content_type req) (body req) =
               Inr (PyStr (decode_utf8_replace (body req)))"
    by (simp add: extract_message_def)
  then show "(fst (webhook_handler E db post req) = Response 400 ''No message provided'') =
              (body req = [])"
    by (simp add: no_message_iff_falsy [OF assms] decode_nonempty)
qed

theorem no_message_provided_iff_witness:
  "\<forall>E post.
     fst (webhook_handler E alerts_db post (post_request ''text/plain'' [])) =
       Response 400 ''No message provided'' \<and>
     fst (webhook_handler E alerts_db post (post_request ''text/plain'' [CHR 0x01])) \<noteq>
       Response 400 ''No message provided''"
proof (intro allI)
  fix E post
  have t: "(fst (webhook_handler E alerts_db post (post_request ''text/plain'' raw)) =
              Response 400 ''No message provided'') = (raw = [])" for raw
  proof -
    have a: "get_topic alerts_db (match_topic_name (post_request ''text/plain'' raw)) =
               Some (hd alerts_db)"
      by (simp add: get_topic_def alerts_db_def post_request_def)
    have c: "content_type (post_request ''text/plain'' raw) \<noteq> py ''application/json''"
      by (simp add: post_request_def py_def)
    from no_message_provided_iff [OF a, of E post, THEN conjunct2, THEN mp, OF c]
    show ?thesis by (simp add: post_request_def)
  qed
  from t [of "[]"] t [of "[CHR 0x01]"]
  show "fst (webhook_handler E alerts_db post (post_request ''text/plain'' [])) =
       Response 400 ''No message provided'' \<and>
     fst (webhook_handler E alerts_db post (post_request ''text/plain'' [CHR 0x01])) \<noteq>
       Response 400 ''No message provided''"
    by simp
qed

text \<open>
  Claim C10, as stated, fails.  The body that is the two bytes of U+00E9 in UTF-8 is
  cleaned to two spaces, which do not decode as JSON; the fallback then decodes the raw
  body, not the cleaned one, and the character U+00E9 (233) is the normalized message.
\<close>

theorem non_ascii_reaches_message_counterexample:
  "\<forall>E. clean_raw_body [CHR 0xC3, CHR 0xA9] = [32, 32] \<and>
        extract_message E (py ''application/json'') [CHR 0xC3, CHR 0xA9] = Inr (PyStr [233]) \<and>
        format_message E (PyStr [233]) = Inr [233]"
  by (simp add: evals)

lemma clean_raw_body_space_out: "clean_raw_body raw = map of_char (map space_out raw)"
  by (simp add: clean_raw_body_def space_out_def)

lemma clean_raw_body_idem: "clean_raw_body (map space_out raw) = clean_raw_body raw"
  by (simp add: clean_raw_body_def space_out_def)

text \<open>
  Claim C10, amended.  When the declared content type is \<open>application/json\<close>, the text
  given to the JSON decoder is the body with every byte outside 32..126 other than tab,
  line feed and carriage return replaced by a space.  When \<open>json.loads\<close> decodes that
  text, the message comes from the decoded value alone, so it is the message of the body in
  which these bytes are spaces.  When \<open>json.loads\<close> rejects it with \<open>JSONDecodeError\<close>, the
  message is the raw body decoded as UTF-8, with its characters outside ASCII.  The theorem
  also covers the remaining case: any other exception of \<open>json.loads\<close> leaves the inner
  \<open>try\<close>, and no message is extracted.
\<close>

theorem json_body_cleaned_before_decoding:
  "clean_raw_body raw = map of_char (map space_out raw) \<and>
   (\<forall>c \<in> set (clean_raw_body raw). (32 \<le> c \<and> c \<le> 126) \<or> c = 9 \<or> c = 10 \<or> c = 13) \<and>
   (\<forall>data. json_loads E (clean_raw_body raw) = Inr data \<longrightarrow>
      extract_message E (py ''application/json'') raw = get_message E data \<and>
      extract_message E (py ''application/json'') (map space_out raw) = get_message E data) \<and>
   (json_loads E (clean_raw_body raw) = Inl JSONDecodeError \<longrightarrow>
      extract_message E (py ''application/json'') raw = Inr (PyStr (decode_utf8_replace raw))) \<and>
   (\<forall>e. json_loads E (clean_raw_body raw) = Inl e \<and> e \<noteq> JSONDecodeError \<longrightarrow>
      extract_message E (py ''application/json'') raw = Inl e)"
proof (intro conjI allI impI ballI)
  show "clean_raw_body raw = map of_char (map space_out raw)"
    by (rule clean_raw_body_space_out)
next
  fix c
  assume "c \<in> set (clean_raw_body raw)"
  then show "(32 \<le> c \<and> c \<le> 126) \<or> c = 9 \<or> c = 10 \<or> c = 13"
    by (auto simp: clean_raw_body_def split: if_splits)
next
  fix data
  assume "json_loads E (clean_raw_body raw) = Inr data"
  then show "extract_message E (py ''application/json'') raw = get_message E data"
    and "extract_message E (py ''application/json'') (map space_out raw) = get_message E data"
    by (simp_all add: extract_message_def clean_raw_body_idem)
next
  assume "json_loads E (clean_raw_body raw) = Inl JSONDecodeError"
  then show "extract_message E (py ''application/json'') raw =
               Inr (PyStr (decode_utf8_replace raw))"
    by (simp add: extract_message_def)
next
  fix e
  assume "json_loads E (clean_raw_body raw) = Inl e \<and> e \<noteq> JSONDecodeError"
  then show "extract_message E (py ''application/json'') raw = Inl e"
    by (simp add: extract_message_def)
qed

theorem json_body_cleaned_before_decoding_witness:
  "\<forall>E. clean_raw_body (''{\"message\": \"caf'' @ [CHR 0xC3, CHR 0xA9] @ ''\"}'') =
          py ''{\"message\": \"caf  \"}'' \<and>
        extract_message E (py ''application/json'')
            (''{\"message\": \"caf'' @ [CHR 0xC3, CHR 0xA9] @ ''\"}'') =
          Inr (PyStr (py ''caf  ''))"
proof (intro allI)
  fix E
  let ?raw = "''{\"message\": \"caf'' @ [CHR 0xC3, CHR 0xA9] @ ''\"}''"
  have c: "clean_raw_body ?raw = py ''{\"message\": \"caf  \"}''"
    by (simp add: clean_raw_body_def py_def)
  have l: "json_loads E (clean_raw_body ?raw) =
             Inr (PyDict [(py ''message'', PyStr (py ''caf  ''))])"
    unfolding c by (simp add: evals)
  have g: "get_message E (PyDict [(py ''message'', PyStr (py ''caf  ''))]) =
             Inr (PyStr (py ''caf  ''))"
    by (simp add: get_message_def dict_get_def py_def py_str_def shallow_def)
  from json_body_cleaned_before_decoding [of ?raw E] l g c
  show "clean_raw_body ?raw = py ''{\"message\": \"caf  \"}'' \<and>
        extract_message E (py ''application/json'') ?raw = Inr (PyStr (py ''caf  ''))"
    by simp
qed

end
